theory Spec2Isabelle
  imports Complex_Main
begin

section \<open>The custom joint prior of the ST-U model for PSR J0740+6620\<close>

text \<open>
  A shallow embedding of \<^verbatim>\<open>STU/CustomPrior_GLS_compressed_scaling.py\<close>, class
  \<^verbatim>\<open>CustomPrior\<close>.  Python floats are embedded as HOL reals, so rounding is not
  modelled; the non-finite floats appear only where the source produces or tests them
  (the value returned by the support evaluator).  Every operation of the source that can
  raise (a name lookup, an index, a float division, \<^verbatim>\<open>math.sqrt\<close>,
  \<^verbatim>\<open>math.acos\<close>) is a branch returning an error value.  Names of the source that
  start with an underscore lose it (\<^verbatim>\<open>_corr\<close> is \<open>corr\<close>), and the attribute
  \<^verbatim>\<open>value\<close> of a parameter is the field \<open>val\<close>.
\<close>

subsection \<open>Values and errors\<close>

datatype py_error = KeyError | ValueError | ZeroDivisionError | IndexError

datatype pyfloat = Fin real | PosInf | NegInf | NaN

fun isfinite :: "pyfloat \<Rightarrow> bool" where
  "isfinite (Fin x) = True"
| "isfinite PosInf = False"
| "isfinite NegInf = False"
| "isfinite NaN = False"

definition py_bind :: "py_error + 'a \<Rightarrow> ('a \<Rightarrow> py_error + 'b) \<Rightarrow> py_error + 'b" where
  "py_bind m f = (case m of Inl e \<Rightarrow> Inl e | Inr v \<Rightarrow> f v)"

text \<open>Float division of Python floats raises on a zero divisor.\<close>

definition py_div :: "real \<Rightarrow> real \<Rightarrow> py_error + real" where
  "py_div a b = (if b = 0 then Inl ZeroDivisionError else Inr (a / b))"

definition math_sqrt :: "real \<Rightarrow> py_error + real" where
  "math_sqrt x = (if x < 0 then Inl ValueError else Inr (sqrt x))"

definition math_acos :: "real \<Rightarrow> py_error + real" where
  "math_acos x = (if x < - 1 \<or> 1 < x then Inl ValueError else Inr (arccos x))"

text \<open>Indexing the hypercube, an array, at a non-negative index.\<close>

definition py_nth :: "real list \<Rightarrow> nat \<Rightarrow> py_error + real" where
  "py_nth xs i = (if i < length xs then Inr (xs ! i) else Inl IndexError)"

subsection \<open>The parameter container\<close>

text \<open>
  The container \<^verbatim>\<open>self.parameters\<close> is code of xpsi, outside this file.  It is
  an ordered sequence of named parameters, each with a value, a cached value, bounds and
  strict bounds.  A lookup by a name that is absent raises \<^verbatim>\<open>KeyError\<close>, which is
  what the source itself relies on (\<^verbatim>\<open>except KeyError\<close>).
\<close>

record param =
  name :: string
  val :: real
  cached :: real
  bounds :: "real \<times> real"
  strict_bounds :: "real \<times> real"

fun get_param :: "param list \<Rightarrow> string \<Rightarrow> py_error + param" where
  "get_param [] n = Inl KeyError"
| "get_param (q # qs) n = (if name q = n then Inr q else get_param qs n)"

text \<open>\<^verbatim>\<open>ref[n]\<close>\<close>

definition getitem :: "param list \<Rightarrow> string \<Rightarrow> py_error + real" where
  "getitem ps n = py_bind (get_param ps n) (\<lambda>q. Inr (val q))"

text \<open>\<^verbatim>\<open>ref[n] = v\<close>\<close>

fun setitem :: "param list \<Rightarrow> string \<Rightarrow> real \<Rightarrow> py_error + param list" where
  "setitem [] n v = Inl KeyError"
| "setitem (q # qs) n v =
     (if name q = n then Inr (q\<lparr>val := v\<rparr> # qs)
      else py_bind (setitem qs n v) (\<lambda>qs'. Inr (q # qs')))"

text \<open>\<^verbatim>\<open>ref.index(n)\<close>\<close>

fun index :: "param list \<Rightarrow> string \<Rightarrow> py_error + nat" where
  "index [] n = Inl KeyError"
| "index (q # qs) n =
     (if name q = n then Inr 0 else py_bind (index qs n) (\<lambda>i. Inr (Suc i)))"

text \<open>\<^verbatim>\<open>self.parameters.vector\<close>\<close>

definition vector :: "param list \<Rightarrow> real list" where
  "vector ps = map val ps"

text \<open>The spacetime object \<^verbatim>\<open>self.parameters.star.spacetime\<close> with the four
  derived quantities the source reads from it.\<close>

record spacetime =
  epsilon :: real
  zeta :: real
  R_r_s :: real
  R :: real

record state =
  parameters :: "param list"
  star_spacetime :: spacetime

subsection \<open>Collaborators\<close>

text \<open>
  The functions of scipy and xpsi that the source calls are arguments of the model:
  \<open>prior_call\<close> is \<^verbatim>\<open>xpsi.Prior.__call__\<close> (the base-class check),
  \<open>effective_gravity\<close> is applied elementwise as the vectorised
  \<^verbatim>\<open>xpsi.surface_radiation_field.effective_gravity\<close> is, \<open>psi\<close> is
  \<^verbatim>\<open>xpsi.HotRegion.psi\<close>, the four distribution functions are those of
  \<^verbatim>\<open>scipy.stats\<close> with their arguments in the order
  \<open>x, a, loc, scale\<close> (skew-normal) and \<open>x, a, b, loc, scale\<close> (truncated normal),
  and \<open>gravradius\<close> is \<^verbatim>\<open>xpsi.global_imports.gravradius\<close>.
\<close>

record env =
  prior_call :: "state \<Rightarrow> pyfloat"
  effective_gravity :: "real \<Rightarrow> real \<Rightarrow> real \<Rightarrow> real \<Rightarrow> real"
  psi :: "real \<Rightarrow> real \<Rightarrow> real \<Rightarrow> real"
  skewnorm_pdf :: "real \<Rightarrow> real \<Rightarrow> real \<Rightarrow> real \<Rightarrow> real"
  skewnorm_ppf :: "real \<Rightarrow> real \<Rightarrow> real \<Rightarrow> real \<Rightarrow> real"
  truncnorm_pdf :: "real \<Rightarrow> real \<Rightarrow> real \<Rightarrow> real \<Rightarrow> real \<Rightarrow> real"
  truncnorm_ppf :: "real \<Rightarrow> real \<Rightarrow> real \<Rightarrow> real \<Rightarrow> real \<Rightarrow> real"
  gravradius :: "real \<Rightarrow> real"

subsection \<open>Module constants (lines 11 to 17)\<close>

definition corr :: real where "corr = 0.800"
definition mu_m :: real where "mu_m = 2.082"
definition std_m :: real where "std_m = 0.0703"
definition mu_cosi :: real where "mu_cosi = 0.0427"
definition std_cosi :: real where "std_cosi = 0.00304"

definition cond_std :: real where
  "cond_std = sqrt ((1.0 - corr * corr) * std_cosi * std_cosi)"

definition cond_std_alpha :: real where
  "cond_std_alpha = sqrt ((1.0 - 0.916 * 0.916) * 0.104 * 0.104)"

definition two_pi :: real where "two_pi = 2 * pi"

subsection \<open>The support evaluator \<^verbatim>\<open>__call__\<close> (lines 53 to 113)\<close>

text \<open>The loop over \<^verbatim>\<open>grav\<close> (lines 93 to 95): \<open>True\<close> when it runs to its end,
  \<open>False\<close> when it returns minus infinity.\<close>

fun grav_loop :: "real list \<Rightarrow> bool" where
  "grav_loop [] = True"
| "grav_loop (g # gs) = (if \<not> (13.7 \<le> g \<and> g \<le> 15.0) then False else grav_loop gs)"

text \<open>The state is the one the base-class call leaves; \<open>call\<close> reads it only.\<close>

definition call :: "env \<Rightarrow> state \<Rightarrow> py_error + pyfloat" where
  "call E st =
    (let temp = prior_call E st in
     if \<not> isfinite temp then Inr temp
     else
      py_bind (getitem (parameters st) ''distance'') (\<lambda>distance.
      if \<not> (0.0 < distance \<and> distance \<le> 1.7) then Inr NegInf
      else
      py_bind (getitem (parameters st) ''radius'') (\<lambda>radius.
      if \<not> radius \<le> 16.0 then Inr NegInf
      else
      let ref = star_spacetime st;
          R_p = 1.0 + epsilon ref * (- 0.788 + 1.030 * zeta ref)
      in
      py_bind (py_div 1.505 (R_r_s ref)) (\<lambda>lim.
      if R_p < lim then Inr NegInf
      else
      py_bind (py_div (- 1.0) (3.0 * epsilon ref * (- 0.788 + 1.030 * zeta ref))) (\<lambda>quot.
      py_bind (math_sqrt quot) (\<lambda>mu.
      if mu < 1.0 then Inr NegInf
      else
      let grav = [effective_gravity E 1.0 (R ref) (zeta ref) (epsilon ref),
                  effective_gravity E 0.0 (R ref) (zeta ref) (epsilon ref)]
      in
      if \<not> grav_loop grav then Inr NegInf
      else
      let ref = parameters st in
      py_bind (getitem ref ''p__super_colatitude'') (\<lambda>pc.
      py_bind (getitem ref ''s__super_colatitude'') (\<lambda>sc.
      if pc > sc then Inr NegInf
      else
      py_bind (getitem ref ''p__phase_shift'') (\<lambda>pp.
      py_bind (getitem ref ''s__phase_shift'') (\<lambda>sp.
      let phi = (pp - 0.5 - sp) * two_pi in
      py_bind (getitem ref ''s__super_colatitude'') (\<lambda>sc2.
      py_bind (getitem ref ''p__super_colatitude'') (\<lambda>pc2.
      let ang_sep = psi E sc2 phi pc2 in
      py_bind (getitem ref ''p__super_radius'') (\<lambda>pr.
      py_bind (getitem ref ''s__super_radius'') (\<lambda>sr.
      if ang_sep < pr + sr then Inr NegInf
      else Inr (Fin 0.0)))))))))))))))"

subsection \<open>The density (lines 115 to 155)\<close>

definition density :: "env \<Rightarrow> state \<Rightarrow> py_error + real" where
  "density E st =
    py_bind (call E st) (\<lambda>t.
    if \<not> isfinite t then Inr 0.0
    else
    let ref = parameters st in
    py_bind (getitem ref ''distance'') (\<lambda>distance.
    let d1 = 1.0 * skewnorm_pdf E distance 1.7 1.002 0.227 in
    py_bind (getitem ref ''mass'') (\<lambda>mass.
    let d2 = d1 * truncnorm_pdf E mass (- 5.0) 5.0 mu_m std_m in
    py_bind (get_param ref ''cos_inclination'') (\<lambda>cp.
    let strict = strict_bounds cp in
    py_bind (getitem ref ''mass'') (\<lambda>mass2.
    let loc = mu_cosi + (std_cosi / std_m) * corr * (mass2 - mu_m);
        lower = min (- 10.0) ((fst strict - loc) / cond_std)
    in
    py_bind (getitem ref ''cos_inclination'') (\<lambda>cosi.
    let d3 = d2 * truncnorm_pdf E cosi lower 10.0 loc cond_std in
    (case getitem ref ''PN__alpha'' of
       Inl KeyError \<Rightarrow> Inr d3
     | Inl e \<Rightarrow> Inl e
     | Inr _ \<Rightarrow>
        let rho = 0.916; std = 0.104 in
        py_bind (getitem ref ''XTI__alpha'') (\<lambda>xa.
        let a = (xa - 1.0) / std in
        py_bind (getitem ref ''PN__alpha'') (\<lambda>pa.
        let b = (pa - 1.0) / std;
            e1 = a * a;
            e2 = e1 + b * b;
            e3 = e2 - 2.0 * rho * a * b;
            exponent = e3 / (2.0 * (1.0 - rho * rho));
            d4 = d3 * exp (- 1.0 * exponent)
        in Inr (d4 / (2.0 * pi * std * std * sqrt (1.0 - rho * rho))))))))))))"

subsection \<open>Inverse sampling (lines 157 to 243)\<close>

text \<open>
  Modelled from the spec: \<^verbatim>\<open>xpsi.Prior.inverse_sample\<close>, the base method called at
  line 166, is not in the source.  The spec says it fills in all parameters with
  independent uniform-in-bounds transforms: the parameter at position \<open>i\<close> gets
  \<open>a + (b - a) * hypercube[i]\<close> for its bounds \<open>(a, b)\<close>.
\<close>

fun base_inverse_sample :: "real list \<Rightarrow> nat \<Rightarrow> param list \<Rightarrow> py_error + param list" where
  "base_inverse_sample hypercube i [] = Inr []"
| "base_inverse_sample hypercube i (q # qs) =
     py_bind (py_nth hypercube i) (\<lambda>h.
     py_bind (base_inverse_sample hypercube (Suc i) qs) (\<lambda>qs'.
     Inr (q\<lparr>val := fst (bounds q) + (snd (bounds q) - fst (bounds q)) * h\<rparr> # qs')))"

text \<open>Lines 170 to 172.\<close>

definition sample_distance :: "env \<Rightarrow> real list \<Rightarrow> param list \<Rightarrow> py_error + param list" where
  "sample_distance E hypercube ref =
     py_bind (index ref ''distance'') (\<lambda>idx.
     py_bind (py_nth hypercube idx) (\<lambda>h.
     setitem ref ''distance'' (skewnorm_ppf E h 1.7 1.002 0.227)))"

text \<open>Lines 174 to 176.\<close>

definition sample_mass :: "env \<Rightarrow> real list \<Rightarrow> param list \<Rightarrow> py_error + param list" where
  "sample_mass E hypercube ref =
     py_bind (index ref ''mass'') (\<lambda>idx.
     py_bind (py_nth hypercube idx) (\<lambda>h.
     setitem ref ''mass'' (truncnorm_ppf E h (- 5.0) 5.0 mu_m std_m)))"

text \<open>Lines 178 to 185.\<close>

definition sample_cos_inclination ::
  "env \<Rightarrow> real list \<Rightarrow> param list \<Rightarrow> py_error + param list" where
  "sample_cos_inclination E hypercube ref =
     py_bind (index ref ''cos_inclination'') (\<lambda>idx.
     py_bind (get_param ref ''cos_inclination'') (\<lambda>cp.
     let strict = strict_bounds cp in
     py_bind (getitem ref ''mass'') (\<lambda>mass.
     let loc = mu_cosi + (std_cosi / std_m) * corr * (mass - mu_m);
         lower = min (- 10.0) ((fst strict - loc) / cond_std)
     in
     py_bind (py_nth hypercube idx) (\<lambda>h.
     setitem ref ''cos_inclination'' (truncnorm_ppf E h lower 10.0 loc cond_std)))))"

text \<open>Lines 189 to 192 with \<open>n\<close> the primary's name, lines 194 to 197 with the
  secondary's: the two blocks of the source differ in the name only.\<close>

definition sample_colatitude :: "real list \<Rightarrow> string \<Rightarrow> param list \<Rightarrow> py_error + param list" where
  "sample_colatitude hypercube n ref =
     py_bind (index ref n) (\<lambda>idx.
     py_bind (get_param ref n) (\<lambda>q.
     let a = cos (fst (bounds q)); b = cos (snd (bounds q)) in
     py_bind (py_nth hypercube idx) (\<lambda>h.
     py_bind (math_acos (b + (a - b) * h)) (\<lambda>v.
     setitem ref n v))))"

text \<open>Lines 199 to 206.\<close>

definition sample_XTI_alpha :: "env \<Rightarrow> real list \<Rightarrow> param list \<Rightarrow> py_error + param list" where
  "sample_XTI_alpha E hypercube ref =
     (case getitem ref ''XTI__alpha'' of
        Inl KeyError \<Rightarrow> Inr ref
      | Inl e \<Rightarrow> Inl e
      | Inr _ \<Rightarrow>
         py_bind (index ref ''XTI__alpha'') (\<lambda>idx.
         py_bind (py_nth hypercube idx) (\<lambda>h.
         setitem ref ''XTI__alpha'' (truncnorm_ppf E h (- 5.0) 5.0 1.0 0.104))))"

text \<open>Lines 208 to 224.\<close>

definition sample_PN_alpha :: "env \<Rightarrow> real list \<Rightarrow> param list \<Rightarrow> py_error + param list" where
  "sample_PN_alpha E hypercube ref =
     (case getitem ref ''PN__alpha'' of
        Inl KeyError \<Rightarrow> Inr ref
      | Inl e \<Rightarrow> Inl e
      | Inr _ \<Rightarrow>
         py_bind (index ref ''PN__alpha'') (\<lambda>idx.
         py_bind
           (case getitem ref ''XTI__alpha'' of
              Inl KeyError \<Rightarrow> Inr (1.0, 0.104)
            | Inl e \<Rightarrow> Inl e
            | Inr _ \<Rightarrow>
               py_bind (getitem ref ''XTI__alpha'') (\<lambda>xa.
               Inr (1.0 + 0.916 * (xa - 1.0), cond_std_alpha)))
           (\<lambda>(loc, scale).
         py_bind (py_nth hypercube idx) (\<lambda>h.
         setitem ref ''PN__alpha'' (truncnorm_ppf E h (- 5.0) 5.0 loc scale)))))"

text \<open>Lines 238 and 239: the loop over \<^verbatim>\<open>zip(self.parameters, to_cache)\<close>, which
  stops at the end of the shorter sequence.\<close>

fun restore_cache :: "param list \<Rightarrow> real list \<Rightarrow> param list" where
  "restore_cache (q # qs) (c # cs) = q\<lparr>cached := c\<rparr> # restore_cache qs cs"
| "restore_cache qs cs = qs"

text \<open>
  \<open>rand\<close> is \<^verbatim>\<open>np.random.rand\<close> at this call: the draw it would deliver for a
  given length.  The result is the returned vector and the state the call leaves.
\<close>

definition inverse_sample ::
  "env \<Rightarrow> (nat \<Rightarrow> real list) \<Rightarrow> real list option \<Rightarrow> state \<Rightarrow> py_error + (real list \<times> state)" where
  "inverse_sample E rand hypercube0 st =
    (let to_cache = vector (parameters st);
         hypercube = (case hypercube0 of
                        None \<Rightarrow> rand (length (parameters st))
                      | Some u \<Rightarrow> u)
     in
     py_bind (base_inverse_sample hypercube 0 (parameters st)) (\<lambda>r0.
     py_bind (sample_distance E hypercube r0) (\<lambda>r1.
     py_bind (sample_mass E hypercube r1) (\<lambda>r2.
     py_bind (sample_cos_inclination E hypercube r2) (\<lambda>r3.
     py_bind (sample_colatitude hypercube ''p__super_colatitude'' r3) (\<lambda>r4.
     py_bind (sample_colatitude hypercube ''s__super_colatitude'' r4) (\<lambda>r5.
     py_bind (sample_XTI_alpha E hypercube r5) (\<lambda>r6.
     py_bind (sample_PN_alpha E hypercube r6) (\<lambda>r7.
     let r8 = restore_cache r7 to_cache in
     Inr (vector r8, st\<lparr>parameters := r8\<rparr>))))))))))"

subsection \<open>The post-processing transform (lines 245 to 262)\<close>

text \<open>\<^verbatim>\<open>dict(zip(names, p))\<close>: a later pair with the same key replaces an earlier one.\<close>

definition dict_zip :: "string list \<Rightarrow> real list \<Rightarrow> (string \<rightharpoonup> real)" where
  "dict_zip names p = map_of (rev (zip names p))"

definition dict_get :: "(string \<rightharpoonup> real) \<Rightarrow> string \<Rightarrow> py_error + real" where
  "dict_get d k = (case d k of None \<Rightarrow> Inl KeyError | Some v \<Rightarrow> Inr v)"

text \<open>The loop of lines 256 to 260.\<close>

fun phase_shift_loop :: "(string \<rightharpoonup> real) \<Rightarrow> string list \<Rightarrow> real list \<Rightarrow> py_error + real list" where
  "phase_shift_loop ref [] p = Inr p"
| "phase_shift_loop ref (phase_shift # rest) p =
     py_bind (dict_get ref phase_shift) (\<lambda>v.
     if v > 0.5
     then py_bind (dict_get ref phase_shift) (\<lambda>w. phase_shift_loop ref rest (p @ [w - 1.0]))
     else py_bind (dict_get ref phase_shift) (\<lambda>w. phase_shift_loop ref rest (p @ [w])))"

text \<open>\<open>names\<close> is \<^verbatim>\<open>self.parameters.names\<close>.\<close>

definition transform :: "env \<Rightarrow> string list \<Rightarrow> real list \<Rightarrow> py_error + real list" where
  "transform E names p =
    (let ref = dict_zip names p in
     py_bind (dict_get ref ''mass'') (\<lambda>mass.
     py_bind (dict_get ref ''radius'') (\<lambda>radius.
     py_bind (py_div (gravradius E mass) radius) (\<lambda>compactness.
     phase_shift_loop ref [''p__phase_shift'', ''s__phase_shift''] (p @ [compactness])))))"

subsection \<open>The statements of the specification\<close>

text \<open>
  The constraints of the support of sections 3 and 4.1 of the specification, in its words
  and in its order, on the values the evaluator reads: distance, radius, the two
  colatitudes \<open>pc\<close> and \<open>sc\<close>, the two phase shifts \<open>pp\<close> and \<open>sp\<close> and the two angular
  radii \<open>pr\<close> and \<open>sr\<close>.  Each constraint gets a verdict: \<open>Some True\<close> where it holds,
  \<open>Some False\<close> where it is violated, and \<open>None\<close> where the quantity it compares does
  not exist, which is the case for the quotient \<open>1.505 / R_r_s\<close> at \<open>R_r_s = 0\<close> and for
  the square root \<open>mu\<close> when its radicand is a quotient by zero or is negative.
\<close>

definition polar_radius_verdict :: "spacetime \<Rightarrow> bool option" where
  "polar_radius_verdict ref =
     (if R_r_s ref = 0 then None
      else Some (1 + epsilon ref * (- 0.788 + 1.030 * zeta ref) \<ge> 1.505 / R_r_s ref))"

definition mu_verdict :: "spacetime \<Rightarrow> bool option" where
  "mu_verdict ref =
     (if 3 * epsilon ref * (- 0.788 + 1.030 * zeta ref) = 0 then None
      else if - 1 / (3 * epsilon ref * (- 0.788 + 1.030 * zeta ref)) < 0 then None
      else Some (sqrt (- 1 / (3 * epsilon ref * (- 0.788 + 1.030 * zeta ref))) \<ge> 1))"

definition support_verdicts ::
  "env \<Rightarrow> spacetime \<Rightarrow> real \<Rightarrow> real \<Rightarrow> real \<Rightarrow> real \<Rightarrow> real \<Rightarrow> real \<Rightarrow> real \<Rightarrow> real
     \<Rightarrow> bool option list" where
  "support_verdicts E ref distance radius pc sc pp sp pr sr =
     [Some (0 < distance \<and> distance \<le> 1.7),
      Some (radius \<le> 16.0),
      polar_radius_verdict ref,
      mu_verdict ref,
      Some (13.7 \<le> effective_gravity E 1 (R ref) (zeta ref) (epsilon ref) \<and>
            effective_gravity E 1 (R ref) (zeta ref) (epsilon ref) \<le> 15.0 \<and>
            13.7 \<le> effective_gravity E 0 (R ref) (zeta ref) (epsilon ref) \<and>
            effective_gravity E 0 (R ref) (zeta ref) (epsilon ref) \<le> 15.0),
      Some (pc \<le> sc),
      Some (psi E sc ((pp - 0.5 - sp) * (2 * pi)) pc \<ge> pr + sr)]"

text \<open>A vector is admissible when every constraint holds.\<close>

definition admissible :: "bool option list \<Rightarrow> bool" where
  "admissible cs \<longleftrightarrow> list_all (\<lambda>c. c = Some True) cs"

text \<open>A single constraint is violated and the others hold: one verdict, and no more, is
  not \<open>Some True\<close>, and it is \<open>Some False\<close>.\<close>

definition single_violation :: "bool option list \<Rightarrow> bool" where
  "single_violation cs \<longleftrightarrow>
     length (filter (\<lambda>c. c \<noteq> Some True) cs) = 1 \<and> Some False \<in> set cs"

text \<open>The verdict of the first constraint, in the order of the list, that does not hold;
  \<open>Some True\<close> when all hold.\<close>

fun verdict_in_order :: "bool option list \<Rightarrow> bool option" where
  "verdict_in_order [] = Some True"
| "verdict_in_order (c # cs) = (if c = Some True then verdict_in_order cs else c)"

text \<open>Section 4.2: the product of the skew-normal density of the distance, the
  truncated-normal density of the mass and the truncated-normal density of the cosine of
  the inclination, with the conditional scale in the form \<open>sqrt (1 - corr\<^sup>2) * std_cosi\<close>.\<close>

definition density_product :: "env \<Rightarrow> real \<Rightarrow> real \<Rightarrow> real \<Rightarrow> real \<Rightarrow> real" where
  "density_product E distance mass cosi strict_lower =
     (let loc = mu_cosi + (std_cosi / std_m) * corr * (mass - mu_m);
          scale = sqrt (1 - corr\<^sup>2) * std_cosi
      in skewnorm_pdf E distance 1.7 1.002 0.227
         * truncnorm_pdf E mass (- 5) 5 2.082 0.0703
         * truncnorm_pdf E cosi (min (- 10.0) ((strict_lower - loc) / scale)) 10.0 loc scale)"

text \<open>The density of a pair of jointly normal variables, in its textbook form.\<close>

definition bivariate_normal_pdf ::
  "real \<Rightarrow> real \<Rightarrow> real \<Rightarrow> real \<Rightarrow> real \<Rightarrow> real \<Rightarrow> real \<Rightarrow> real" where
  "bivariate_normal_pdf x y m1 m2 s1 s2 rho =
     exp (- (((x - m1) / s1)\<^sup>2 - 2 * rho * ((x - m1) / s1) * ((y - m2) / s2) + ((y - m2) / s2)\<^sup>2)
            / (2 * (1 - rho\<^sup>2)))
     / (2 * pi * s1 * s2 * sqrt (1 - rho\<^sup>2))"

text \<open>Section 4.4: the value appended for a phase shift.\<close>

definition phase_shift_shifted :: "real \<Rightarrow> real" where
  "phase_shift_shifted v = (if v > 0.5 then v - 1.0 else v)"

subsection \<open>A concrete model instance\<close>

text \<open>
  An instance of the collaborators and a parameter set in the order of the class
  docstring, for evaluating the definitions at explicit inputs.  Here \<open>prior_call\<close> is
  the bounds check and \<open>psi\<close> the spherical law of cosines; the gravity and the
  distribution functions of xpsi and scipy are replaced by simple functions of the same
  types, and \<open>gravradius\<close> by the gravitational radius in km per solar mass.
\<close>

definition bounds_check :: "state \<Rightarrow> pyfloat" where
  "bounds_check st =
     (if list_all (\<lambda>q. fst (bounds q) \<le> val q \<and> val q \<le> snd (bounds q)) (parameters st)
      then Fin 0 else NegInf)"

definition env0 :: env where
  "env0 = \<lparr> prior_call = bounds_check,
            effective_gravity = (\<lambda>c r z e. 14.2 + 0.1 * c),
            psi = (\<lambda>theta phi colatitude.
                     arccos (cos colatitude * cos theta + sin colatitude * sin theta * cos phi)),
            skewnorm_pdf = (\<lambda>x a loc scale. 1 / \<bar>scale\<bar>),
            skewnorm_ppf = (\<lambda>q a loc scale. loc + scale * q),
            truncnorm_pdf = (\<lambda>x a b loc scale. 1 / \<bar>scale * (b - a)\<bar>),
            truncnorm_ppf = (\<lambda>q a b loc scale. loc + scale * (a + (b - a) * q)),
            gravradius = (\<lambda>m. 1.476625 * m) \<rparr>"

definition mk_param :: "string \<Rightarrow> real \<Rightarrow> real \<Rightarrow> real \<Rightarrow> param" where
  "mk_param n v lo hi =
     \<lparr> name = n, val = v, cached = 0, bounds = (lo, hi), strict_bounds = (lo, hi) \<rparr>"

definition core_params :: "param list" where
  "core_params =
     [mk_param ''mass'' 2.0 1.0 3.0,
      mk_param ''radius'' 12.0 4.5 16.0,
      mk_param ''distance'' 1.0 0.0 1.7,
      mk_param ''cos_inclination'' 0.04 0.0 1.0,
      mk_param ''p__phase_shift'' 0.75 0.0 1.0,
      mk_param ''p__super_colatitude'' (pi / 2) 0 pi,
      mk_param ''p__super_radius'' 0.1 0.0 1.5,
      mk_param ''p__super_temperature'' 6.0 5.1 6.8,
      mk_param ''s__phase_shift'' 0.0 0.0 1.0,
      mk_param ''s__super_colatitude'' (pi / 2) 0 pi,
      mk_param ''s__super_radius'' 0.1 0.0 1.5,
      mk_param ''s__super_temperature'' 6.0 5.1 6.8]"

definition params0 :: "param list" where
  "params0 = core_params @
     [mk_param ''XTI__alpha'' 1.0 0.5 1.5,
      mk_param ''column_density'' 1.0 0.0 10.0,
      mk_param ''PN__alpha'' 1.0 0.5 1.5]"

text \<open>The variant with the second instrument scale factor but not the first.\<close>

definition params_PN_only :: "param list" where
  "params_PN_only = core_params @
     [mk_param ''column_density'' 1.0 0.0 10.0,
      mk_param ''PN__alpha'' 1.0 0.5 1.5]"

text \<open>The variant with the first instrument scale factor only.\<close>

definition params_XTI_only :: "param list" where
  "params_XTI_only = core_params @
     [mk_param ''XTI__alpha'' 1.0 0.5 1.5,
      mk_param ''column_density'' 1.0 0.0 10.0]"

text \<open>
  The spacetime of a star of mass \<open>m\<close> (solar masses) and equatorial radius \<open>r\<close> (km) with
  spin parameter \<open>eps\<close>: \<open>zeta\<close> is the gravitational radius over the radius, \<open>R_r_s\<close> is
  the radius over the Schwarzschild radius (twice the gravitational radius), and \<open>R\<close> is
  the radius in metres.  The spin parameter comes from the spin frequency, which is not
  one of the parameters of the prior.
\<close>

definition spacetime_of :: "real \<Rightarrow> real \<Rightarrow> real \<Rightarrow> spacetime" where
  "spacetime_of m r eps =
     \<lparr> epsilon = eps, zeta = gravradius env0 m / r, R_r_s = r / (2 * gravradius env0 m),
       R = 1000 * r \<rparr>"

definition with_mass_radius :: "real \<Rightarrow> real \<Rightarrow> param list \<Rightarrow> param list" where
  "with_mass_radius m r ps =
     map (\<lambda>q. if name q = ''mass'' then q\<lparr>val := m\<rparr>
              else if name q = ''radius'' then q\<lparr>val := r\<rparr> else q) ps"

text \<open>The state with the parameters \<open>ps\<close> at mass \<open>m\<close> and radius \<open>r\<close>, and the spacetime
  of that mass and radius.\<close>

definition mk_state :: "param list \<Rightarrow> real \<Rightarrow> real \<Rightarrow> real \<Rightarrow> state" where
  "mk_state ps m r eps =
     \<lparr> parameters = with_mass_radius m r ps, star_spacetime = spacetime_of m r eps \<rparr>"

text \<open>A star of two solar masses and twelve kilometres, inside the support.\<close>

definition st0 :: state where
  "st0 = mk_state params0 2.0 12.0 0.03"

definition st_PN_only :: state where
  "st_PN_only = mk_state params_PN_only 2.0 12.0 0.03"

definition st_XTI_only :: state where
  "st_XTI_only = mk_state params_XTI_only 2.0 12.0 0.03"

text \<open>A star of three solar masses and twelve kilometres: its polar radius lies inside
  the photon sphere (\<open>R_r_s = 1.354\<close>), so it fails the check of line 76, and no other.\<close>

definition st_photon :: state where
  "st_photon = mk_state params0 3.0 12.0 0.03"

text \<open>A star of three solar masses and four and a half kilometres, inside its own
  Schwarzschild radius (\<open>R_r_s = 0.508\<close>, \<open>zeta = 0.984\<close>) and rotating slowly: it fails
  the check of line 76.\<close>

definition st_compact_slow :: state where
  "st_compact_slow = mk_state params0 3.0 4.5 0.001"


definition u0 :: "real list" where
  "u0 = [0.5, 0.25, 0.5, 0.5, 0.1, 0.5, 0.2, 0.3, 0.4, 0.75, 0.6, 0.7, 0.5, 0.8, 0.75]"

definition names0 :: "string list" where
  "names0 = map name params0"

text \<open>Two raw parameter vectors for \<open>transform\<close>: primary phase shift \<open>0.5\<close>, and phase
  shifts \<open>0.7\<close> and \<open>0.3\<close>.\<close>

definition vec_half :: "real list" where
  "vec_half = [2.0, 12.0, 1.0, 0.04, 0.5, 1.0, 0.1, 6.0, 0.3, 2.0, 0.1, 6.0, 1.0, 1.0, 1.0]"

definition vec_07 :: "real list" where
  "vec_07 = [2.0, 12.0, 1.0, 0.04, 0.7, 1.0, 0.1, 6.0, 0.3, 2.0, 0.1, 6.0, 1.0, 1.0, 1.0]"

text \<open>Two parameter lists that differ in the values of their parameters only: names,
  cached values, bounds and strict bounds agree position by position.\<close>

definition same_frame :: "param list \<Rightarrow> param list \<Rightarrow> bool" where
  "same_frame ps ps' \<longleftrightarrow> map (\<lambda>q. q\<lparr>val := 0\<rparr>) ps' = map (\<lambda>q. q\<lparr>val := 0\<rparr>) ps"

text \<open>A random source for the instance.\<close>

definition rand0 :: "nat \<Rightarrow> real list" where
  "rand0 n = replicate n 0.5"

section \<open>Basic facts\<close>

lemma py_bind_Inr [simp]: "py_bind (Inr v) f = f v"
  by (simp add: py_bind_def)

lemma py_bind_Inl [simp]: "py_bind (Inl e) f = Inl e"
  by (simp add: py_bind_def)

lemma names0_eq:
  "names0 = [''mass'', ''radius'', ''distance'', ''cos_inclination'',
     ''p__phase_shift'', ''p__super_colatitude'', ''p__super_radius'', ''p__super_temperature'',
     ''s__phase_shift'', ''s__super_colatitude'', ''s__super_radius'', ''s__super_temperature'',
     ''XTI__alpha'', ''column_density'', ''PN__alpha'']"
  by (simp add: names0_def params0_def core_params_def mk_param_def)

section \<open>The post-processing transform\<close>

text \<open>
  Claim C9, as the specification states it: for every raw phase shift in \<open>[0, 1)\<close> the
  value \<open>transform\<close> appends lies in \<open>[-0.5, 0.5)\<close>.  It fails at the raw phase shift
  \<open>0.5\<close>: the test of line 257 is \<open>> 0.5\<close>, so \<open>0.5\<close> is appended unchanged, and
  \<open>0.5\<close> is not below \<open>0.5\<close>.  Here the primary phase shift, entry 4 of the input, is
  \<open>0.5\<close> and the value appended for it is entry 16 of the output.
\<close>

theorem transform_half_not_in_range:
  "transform env0 names0 vec_half = Inr (vec_half @ [1.476625 * 2.0 / 12.0, 0.5, 0.3])
   \<and> 0 \<le> vec_half ! 4 \<and> vec_half ! 4 < 1
   \<and> \<not> (- 0.5 \<le> (vec_half @ [1.476625 * 2.0 / 12.0, 0.5, 0.3]) ! 16
         \<and> (vec_half @ [1.476625 * 2.0 / 12.0, 0.5, 0.3]) ! 16 < 0.5)"
  by (simp add: transform_def names0_eq vec_half_def dict_zip_def dict_get_def py_div_def
      env0_def)

text \<open>
  Claim C9, amended: for each of the two phase-shift parameters \<open>transform\<close> appends
  the value minus \<open>1.0\<close> when the value exceeds \<open>0.5\<close> and the value unchanged
  otherwise, after the compactness; for every raw phase shift in \<open>[0, 1)\<close> the appended
  value lies in \<open>(-0.5, 0.5]\<close>; a phase shift of \<open>0.7\<close> gives \<open>-0.3\<close> and one of
  \<open>0.3\<close> gives \<open>0.3\<close>.  The names \<open>mass\<close>, \<open>radius\<close> and the two phase shifts are
  among the parameter names and the radius is not zero (otherwise the source raises).
\<close>

theorem transform_phase_shifts:
  assumes "dict_get (dict_zip names p) ''mass'' = Inr m"
    and "dict_get (dict_zip names p) ''radius'' = Inr r"
    and "r \<noteq> 0"
    and "dict_get (dict_zip names p) ''p__phase_shift'' = Inr a"
    and "dict_get (dict_zip names p) ''s__phase_shift'' = Inr b"
  shows "transform E names p =
           Inr (p @ [gravradius E m / r, phase_shift_shifted a, phase_shift_shifted b])
     \<and> (0 \<le> a \<and> a < 1 \<longrightarrow> - 0.5 < phase_shift_shifted a \<and> phase_shift_shifted a \<le> 0.5)
     \<and> (0 \<le> b \<and> b < 1 \<longrightarrow> - 0.5 < phase_shift_shifted b \<and> phase_shift_shifted b \<le> 0.5)
     \<and> phase_shift_shifted 0.7 = - 0.3 \<and> phase_shift_shifted 0.3 = 0.3"
proof -
  have "transform E names p =
          Inr (p @ [gravradius E m / r, phase_shift_shifted a, phase_shift_shifted b])"
    using assms by (simp add: transform_def py_div_def phase_shift_shifted_def)
  moreover have "0 \<le> v \<and> v < 1 \<longrightarrow> - 0.5 < phase_shift_shifted v \<and> phase_shift_shifted v \<le> 0.5"
    for v
    by (simp add: phase_shift_shifted_def)
  moreover have "phase_shift_shifted 0.7 = - 0.3" "phase_shift_shifted 0.3 = 0.3"
    by (simp_all add: phase_shift_shifted_def)
  ultimately show ?thesis by blast
qed

theorem transform_phase_shifts_witness:
  "dict_get (dict_zip names0 vec_07) ''mass'' = Inr 2.0
   \<and> dict_get (dict_zip names0 vec_07) ''radius'' = Inr 12.0
   \<and> (12.0 :: real) \<noteq> 0
   \<and> dict_get (dict_zip names0 vec_07) ''p__phase_shift'' = Inr 0.7
   \<and> dict_get (dict_zip names0 vec_07) ''s__phase_shift'' = Inr 0.3
   \<and> (0::real) \<le> 0.7 \<and> (0.7::real) < 1 \<and> (0::real) \<le> 0.3 \<and> (0.3::real) < 1
   \<and> transform env0 names0 vec_07 = Inr (vec_07 @ [gravradius env0 2.0 / 12.0, - 0.3, 0.3])"
proof -
  have m: "dict_get (dict_zip names0 vec_07) ''mass'' = Inr 2.0"
    and r: "dict_get (dict_zip names0 vec_07) ''radius'' = Inr 12.0"
    and a: "dict_get (dict_zip names0 vec_07) ''p__phase_shift'' = Inr 0.7"
    and b: "dict_get (dict_zip names0 vec_07) ''s__phase_shift'' = Inr 0.3"
    by (simp_all add: names0_eq vec_07_def dict_zip_def dict_get_def)
  have nz: "(12.0 :: real) \<noteq> 0" by simp
  from transform_phase_shifts [OF m r nz a b, of env0]
  have "transform env0 names0 vec_07 = Inr (vec_07 @ [gravradius env0 2.0 / 12.0, - 0.3, 0.3])"
    by simp
  with m r a b show ?thesis by simp
qed

section \<open>The support evaluator\<close>

lemma verdict_in_order_admissible: "admissible cs \<Longrightarrow> verdict_in_order cs = Some True"
  by (induction cs) (simp_all add: admissible_def)

lemma verdict_in_order_single: "single_violation cs \<Longrightarrow> verdict_in_order cs = Some False"
proof (induction cs)
  case Nil
  then show ?case by (simp add: single_violation_def)
next
  case (Cons c cs)
  show ?case
  proof (cases "c = Some True")
    case True
    with Cons.prems have "single_violation cs"
      by (simp add: single_violation_def)
    with Cons.IH True show ?thesis by simp
  next
    case False
    with Cons.prems have "filter (\<lambda>c. c \<noteq> Some True) cs = []"
      by (simp add: single_violation_def)
    then have "\<forall>x \<in> set cs. x = Some True"
      by (simp add: filter_empty_conv)
    with Cons.prems have "c = Some False"
      by (auto simp add: single_violation_def)
    then show ?thesis by simp
  qed
qed

text \<open>The evaluator runs through the constraints in the order of the list and returns at
  the first that is violated.\<close>

lemma call_in_order:
  assumes fin: "isfinite (prior_call E st)"
    and d: "getitem (parameters st) ''distance'' = Inr distance"
    and r: "getitem (parameters st) ''radius'' = Inr radius"
    and pc: "getitem (parameters st) ''p__super_colatitude'' = Inr pc"
    and sc: "getitem (parameters st) ''s__super_colatitude'' = Inr sc"
    and pp: "getitem (parameters st) ''p__phase_shift'' = Inr pp"
    and sp: "getitem (parameters st) ''s__phase_shift'' = Inr sp"
    and pr: "getitem (parameters st) ''p__super_radius'' = Inr pr"
    and sr: "getitem (parameters st) ''s__super_radius'' = Inr sr"
    and v: "verdict_in_order
              (support_verdicts E (star_spacetime st) distance radius pc sc pp sp pr sr) = Some b"
  shows "call E st = Inr (if b then Fin 0 else NegInf)"
proof -
  let ?ref = "star_spacetime st"
  let ?x = "epsilon ?ref * (- 0.788 + 1.030 * zeta ?ref)"
  let ?y = "3 * epsilon ?ref * (- 0.788 + 1.030 * zeta ?ref)"
  define G where "G \<longleftrightarrow>
     13.7 \<le> effective_gravity E 1 (R ?ref) (zeta ?ref) (epsilon ?ref) \<and>
     effective_gravity E 1 (R ?ref) (zeta ?ref) (epsilon ?ref) \<le> 15.0 \<and>
     13.7 \<le> effective_gravity E 0 (R ?ref) (zeta ?ref) (epsilon ?ref) \<and>
     effective_gravity E 0 (R ?ref) (zeta ?ref) (epsilon ?ref) \<le> 15.0"
  define S where "S \<longleftrightarrow> psi E sc ((pp - 0.5 - sp) * (2 * pi)) pc \<ge> pr + sr"
  note vd = v [unfolded support_verdicts_def, folded G_def S_def]
  show ?thesis
  proof (cases "0 < distance \<and> distance \<le> 1.7")
    case False
    with vd have "\<not> b" by (auto split: if_splits)
    moreover from fin False have "call E st = Inr NegInf"
      by (simp add: call_def d)
    ultimately show ?thesis by simp
  next
    case c1: True
    show ?thesis
    proof (cases "radius \<le> 16.0")
      case False
      with vd c1 have "\<not> b" by (auto split: if_splits)
      moreover from fin c1 False have "call E st = Inr NegInf"
        by (simp add: call_def d r)
      ultimately show ?thesis by simp
    next
      case c2: True
      show ?thesis
      proof (cases "R_r_s ?ref = 0")
        case True
        with vd c1 c2 show ?thesis
          by (auto simp add: polar_radius_verdict_def split: if_splits)
      next
        case rs: False
        show ?thesis
        proof (cases "1 + ?x < 1.505 / R_r_s ?ref")
          case True
          with vd c1 c2 rs have "\<not> b"
            by (auto simp add: polar_radius_verdict_def not_le split: if_splits)
          moreover from fin c1 c2 rs True have "call E st = Inr NegInf"
            by (simp add: call_def d r py_div_def Let_def)
          ultimately show ?thesis by simp
        next
          case c3: False
          then have p3: "polar_radius_verdict ?ref = Some True"
            using rs by (simp add: polar_radius_verdict_def not_less)
          note vd3 = vd [unfolded p3]
          show ?thesis
          proof (cases "mu_verdict ?ref")
            case None
            with vd3 c1 c2 show ?thesis by (auto split: if_splits)
          next
            case (Some m)
            then have y: "?y \<noteq> 0" and q: "\<not> - 1 / ?y < 0"
              and m: "m \<longleftrightarrow> sqrt (- 1 / ?y) \<ge> 1"
              by (auto simp add: mu_verdict_def split: if_splits)
            have head: "call E st =
                (if sqrt (- 1 / ?y) < 1 then Inr NegInf
                 else if \<not> G then Inr NegInf
                 else if pc > sc then Inr NegInf
                 else if \<not> S then Inr NegInf else Inr (Fin 0))"
              unfolding call_def G_def S_def
              using fin c1 c2 rs c3 y q
              by (simp add: d r pc sc pp sp pr sr py_div_def math_sqrt_def Let_def two_pi_def
                  not_less del: mult.assoc)
            from vd3 c1 c2 Some m
            have "b \<longleftrightarrow> sqrt (- 1 / ?y) \<ge> 1 \<and> G \<and> pc \<le> sc \<and> S"
              by (cases m; cases G; cases "pc \<le> sc"; cases S) (auto split: if_splits)
            with head show ?thesis
              by (simp add: not_less not_le)
          qed
        qed
      qed
    qed
  qed
qed

lemmas instance_defs =
  params0_def core_params_def mk_param_def mk_state_def with_mass_radius_def getitem_def

text \<open>The values the evaluator reads from the states of the instance.\<close>

lemma mk_state_items:
  "getitem (parameters (mk_state params0 m r eps)) ''distance'' = Inr 1.0"
  "getitem (parameters (mk_state params0 m r eps)) ''radius'' = Inr r"
  "getitem (parameters (mk_state params0 m r eps)) ''p__super_colatitude'' = Inr (pi / 2)"
  "getitem (parameters (mk_state params0 m r eps)) ''s__super_colatitude'' = Inr (pi / 2)"
  "getitem (parameters (mk_state params0 m r eps)) ''p__phase_shift'' = Inr 0.75"
  "getitem (parameters (mk_state params0 m r eps)) ''s__phase_shift'' = Inr 0.0"
  "getitem (parameters (mk_state params0 m r eps)) ''p__super_radius'' = Inr 0.1"
  "getitem (parameters (mk_state params0 m r eps)) ''s__super_radius'' = Inr 0.1"
  by (simp_all add: instance_defs)

lemma mk_state_base_finite:
  assumes "1 \<le> m" "m \<le> 3" "4.5 \<le> r" "r \<le> 16"
  shows "isfinite (prior_call env0 (mk_state params0 m r eps))"
  using assms pi_ge_two by (simp add: instance_defs env0_def bounds_check_def)

lemma mk_state_spacetime:
  "star_spacetime (mk_state ps m r eps) =
     \<lparr> epsilon = eps, zeta = 1.476625 * m / r, R_r_s = r / (2 * (1.476625 * m)), R = 1000 * r \<rparr>"
  by (simp add: mk_state_def spacetime_of_def env0_def)

text \<open>The verdicts of the constraints at the states of the instance.\<close>

lemma st0_verdicts:
  "support_verdicts env0 (star_spacetime st0) 1.0 12.0 (pi / 2) (pi / 2) 0.75 0.0 0.1 0.1
   = [Some True, Some True, Some True, Some True, Some True, Some True, Some True]"
  using pi_ge_two
  by (simp add: st0_def mk_state_spacetime support_verdicts_def polar_radius_verdict_def
      mu_verdict_def env0_def)

lemma st_photon_verdicts:
  "support_verdicts env0 (star_spacetime st_photon) 1.0 12.0 (pi / 2) (pi / 2) 0.75 0.0 0.1 0.1
   = [Some True, Some True, Some False, Some True, Some True, Some True, Some True]"
  using pi_ge_two
  by (simp add: st_photon_def mk_state_spacetime support_verdicts_def polar_radius_verdict_def
      mu_verdict_def env0_def)

lemma st_compact_slow_verdicts:
  "support_verdicts env0 (star_spacetime st_compact_slow) 1.0 4.5 (pi / 2) (pi / 2) 0.75 0.0 0.1 0.1
   = [Some True, Some True, Some False, None, Some True, Some True, Some True]"
  using pi_ge_two
  by (simp add: st_compact_slow_def mk_state_spacetime support_verdicts_def polar_radius_verdict_def
      mu_verdict_def env0_def)


text \<open>
  Claim C1: for every parameter vector on which the base-class check returns a finite
  value, \<open>__call__\<close> returns exactly \<open>0.0\<close> when all the constraints hold (distance in
  \<open>(0, 1.7]\<close>, radius at most \<open>16.0\<close>, \<open>R_p \<ge> 1.505 / R_r_s\<close>, \<open>mu \<ge> 1\<close>, both
  gravities in \<open>[13.7, 15.0]\<close>, primary colatitude at most the secondary's, angular
  separation at least the sum of the angular radii), and minus infinity when any single
  one of them is violated and the others hold.  The verdicts of the constraints are
  \<open>support_verdicts\<close>, on the values the container holds under the eight names; a
  constraint whose quotient or square root does not exist neither holds nor is violated.
  The third part covers more than single violations: the evaluator returns minus
  infinity whenever the first constraint that does not hold, in the order of the source,
  is violated, whatever the later ones are.
\<close>

theorem call_support:
  assumes fin: "isfinite (prior_call E st)"
    and d: "getitem (parameters st) ''distance'' = Inr distance"
    and r: "getitem (parameters st) ''radius'' = Inr radius"
    and pc: "getitem (parameters st) ''p__super_colatitude'' = Inr pc"
    and sc: "getitem (parameters st) ''s__super_colatitude'' = Inr sc"
    and pp: "getitem (parameters st) ''p__phase_shift'' = Inr pp"
    and sp: "getitem (parameters st) ''s__phase_shift'' = Inr sp"
    and pr: "getitem (parameters st) ''p__super_radius'' = Inr pr"
    and sr: "getitem (parameters st) ''s__super_radius'' = Inr sr"
  shows "(admissible (support_verdicts E (star_spacetime st) distance radius pc sc pp sp pr sr)
            \<longrightarrow> call E st = Inr (Fin 0))
       \<and> (single_violation (support_verdicts E (star_spacetime st) distance radius pc sc pp sp pr sr)
            \<longrightarrow> call E st = Inr NegInf)
       \<and> (verdict_in_order (support_verdicts E (star_spacetime st) distance radius pc sc pp sp pr sr)
              = Some False
            \<longrightarrow> call E st = Inr NegInf)"
  using call_in_order [OF assms, of True] call_in_order [OF assms, of False]
    verdict_in_order_admissible verdict_in_order_single
  by auto

text \<open>The theorem at an admissible vector, at one that violates the polar-radius
  constraint alone, and at a compact star rejected by line 76 whose \<open>mu\<close> does not exist.\<close>

theorem call_support_witness:
  "isfinite (prior_call env0 st0)
   \<and> admissible (support_verdicts env0 (star_spacetime st0) 1.0 12.0 (pi / 2) (pi / 2) 0.75 0.0 0.1 0.1)
   \<and> call env0 st0 = Inr (Fin 0)
   \<and> isfinite (prior_call env0 st_photon)
   \<and> single_violation
        (support_verdicts env0 (star_spacetime st_photon) 1.0 12.0 (pi / 2) (pi / 2) 0.75 0.0 0.1 0.1)
   \<and> call env0 st_photon = Inr NegInf
   \<and> isfinite (prior_call env0 st_compact_slow)
   \<and> verdict_in_order
        (support_verdicts env0 (star_spacetime st_compact_slow) 1.0 4.5 (pi / 2) (pi / 2) 0.75 0.0 0.1 0.1)
       = Some False
   \<and> call env0 st_compact_slow = Inr NegInf"
proof -
  have f0: "isfinite (prior_call env0 st0)"
    unfolding st0_def by (rule mk_state_base_finite) simp_all
  have f1: "isfinite (prior_call env0 st_photon)"
    unfolding st_photon_def by (rule mk_state_base_finite) simp_all
  have f2: "isfinite (prior_call env0 st_compact_slow)"
    unfolding st_compact_slow_def by (rule mk_state_base_finite) simp_all
  have a0: "admissible
      (support_verdicts env0 (star_spacetime st0) 1.0 12.0 (pi / 2) (pi / 2) 0.75 0.0 0.1 0.1)"
    unfolding st0_verdicts by (simp add: admissible_def)
  have a1: "single_violation
      (support_verdicts env0 (star_spacetime st_photon) 1.0 12.0 (pi / 2) (pi / 2) 0.75 0.0 0.1 0.1)"
    unfolding st_photon_verdicts by (simp add: single_violation_def)
  have a2: "verdict_in_order
      (support_verdicts env0 (star_spacetime st_compact_slow) 1.0 4.5 (pi / 2) (pi / 2) 0.75 0.0 0.1 0.1)
      = Some False"
    unfolding st_compact_slow_verdicts by simp
  have "call env0 st0 = Inr (Fin 0)"
    using call_support [OF f0 mk_state_items [of "2.0" "12.0" "0.03", folded st0_def]] a0
    by blast
  moreover have "call env0 st_photon = Inr NegInf"
    using call_support [OF f1 mk_state_items [of "3.0" "12.0" "0.03", folded st_photon_def]] a1
    by blast
  moreover have "call env0 st_compact_slow = Inr NegInf"
    using call_support [OF f2 mk_state_items [of "3.0" "4.5" "0.001", folded st_compact_slow_def]] a2
    by blast
  ultimately show ?thesis
    using f0 f1 f2 a0 a1 a2 by blast
qed

subsection \<open>Exceptions of the support evaluator\<close>

lemma density_of_call:
  "call E st = Inl e \<Longrightarrow> density E st = Inl e"
  "call E st = Inr t \<Longrightarrow> \<not> isfinite t \<Longrightarrow> density E st = Inr 0"
  by (simp_all add: density_def)


section \<open>The density\<close>

lemma getitem_get_param: "get_param ps n = Inr q \<Longrightarrow> getitem ps n = Inr (val q)"
  by (simp add: getitem_def)

text \<open>A lookup raises nothing but \<open>KeyError\<close>.\<close>

lemma get_param_error: "get_param ps n = Inl e \<Longrightarrow> e = KeyError"
  by (induction ps) (auto split: if_splits)

lemma getitem_error: "getitem ps n = Inl e \<Longrightarrow> e = KeyError"
  by (cases "get_param ps n") (auto simp: getitem_def dest: get_param_error)

lemma getitem_Inr: "getitem ps n = Inr v \<Longrightarrow> \<exists>q. get_param ps n = Inr q \<and> val q = v"
  by (cases "get_param ps n") (auto simp: getitem_def)

text \<open>The conditional scale of line 16 is \<open>sqrt (1 - corr\<^sup>2) * std_cosi\<close>.\<close>

lemma sqrt_cond:
  fixes c s :: real
  assumes "0 \<le> s"
  shows "sqrt ((1.0 - c * c) * s * s) = sqrt (1 - c\<^sup>2) * s"
proof -
  have "sqrt ((1 - c * c) * (s * s)) = sqrt (1 - c * c) * sqrt (s * s)"
    by (rule real_sqrt_mult)
  with assms show ?thesis
    by (simp add: power2_eq_square mult.assoc)
qed

lemma cond_std_eq: "cond_std = sqrt (1 - corr\<^sup>2) * std_cosi"
  unfolding cond_std_def by (rule sqrt_cond) (simp add: std_cosi_def)

text \<open>The factor of lines 142 to 153 is the bivariate normal density.\<close>

lemma bvn_generic:
  fixes a b rho s d :: real
  shows "d * exp (- 1.0 * ((a * a + b * b - 2.0 * rho * a * b) / (2.0 * (1.0 - rho * rho))))
           / (2.0 * pi * s * s * sqrt (1.0 - rho * rho))
         = d * (exp (- (a\<^sup>2 - 2 * rho * a * b + b\<^sup>2) / (2 * (1 - rho\<^sup>2)))
                / (2 * pi * s * s * sqrt (1 - rho\<^sup>2)))"
proof -
  have "a * a + b * b - 2 * rho * a * b = a\<^sup>2 - 2 * rho * a * b + b\<^sup>2"
    by (simp add: power2_eq_square)
  then show ?thesis
    by (simp add: power2_eq_square)
qed

lemma alpha_density:
  "d * exp (- 1.0 * ((((xa - 1.0) / 0.104) * ((xa - 1.0) / 0.104)
                      + ((pa - 1.0) / 0.104) * ((pa - 1.0) / 0.104)
                      - 2.0 * 0.916 * ((xa - 1.0) / 0.104) * ((pa - 1.0) / 0.104))
                     / (2.0 * (1.0 - 0.916 * 0.916))))
     / (2.0 * pi * 0.104 * 0.104 * sqrt (1.0 - 0.916 * 0.916))
   = d * bivariate_normal_pdf xa pa 1.0 1.0 0.104 0.104 (0.916 :: real)"
  unfolding bivariate_normal_pdf_def by (rule bvn_generic)

text \<open>The product of lines 123 to 136.\<close>

lemma density_product_code:
  "1.0 * skewnorm_pdf E distance 1.7 1.002 0.227
     * truncnorm_pdf E mass (- 5.0) 5.0 mu_m std_m
     * truncnorm_pdf E cosi
         (min (- 10.0) ((lo - (mu_cosi + (std_cosi / std_m) * corr * (mass - mu_m))) / cond_std))
         10.0 (mu_cosi + (std_cosi / std_m) * corr * (mass - mu_m)) cond_std
   = density_product E distance mass cosi lo"
  by (simp add: density_product_def Let_def cond_std_eq mu_m_def std_m_def)

text \<open>The density inside the support, with the lookups of lines 124 to 133 resolved.\<close>

lemma density_unfold:
  assumes c: "call E st = Inr t" and fin: "isfinite t"
    and d: "getitem (parameters st) ''distance'' = Inr distance"
    and m: "getitem (parameters st) ''mass'' = Inr mass"
    and cp: "get_param (parameters st) ''cos_inclination'' = Inr cp"
  shows "density E st =
     (case getitem (parameters st) ''PN__alpha'' of
        Inl e \<Rightarrow> (case e of KeyError \<Rightarrow> Inr (density_product E distance mass (val cp) (fst (strict_bounds cp))) | _ \<Rightarrow> Inl e)
      | Inr pa \<Rightarrow> py_bind (getitem (parameters st) ''XTI__alpha'') (\<lambda>xa.
           Inr (density_product E distance mass (val cp) (fst (strict_bounds cp))
                * bivariate_normal_pdf xa pa 1.0 1.0 0.104 0.104 0.916)))"
proof (cases "getitem (parameters st) ''PN__alpha''")
  case (Inl e)
  then have e: "e = KeyError" by (rule getitem_error)
  show ?thesis
    unfolding density_def Let_def c d m cp getitem_get_param [OF cp] py_bind_Inr Inl e
    using fin by (simp only: not_True_eq_False if_False sum.case py_error.case density_product_code)
next
  case (Inr pa)
  show ?thesis
  proof (cases "getitem (parameters st) ''XTI__alpha''")
    case (Inl e)
    show ?thesis
      unfolding density_def Let_def c d m cp getitem_get_param [OF cp] py_bind_Inr Inr Inl
      using fin by (simp only: not_True_eq_False if_False sum.case py_bind_Inl)
  next
    case xa: (Inr xa)
    show ?thesis
      unfolding density_def Let_def c d m cp getitem_get_param [OF cp] py_bind_Inr Inr xa
      using fin by (simp only: not_True_eq_False if_False sum.case alpha_density density_product_code)
  qed
qed

lemma density_lookups:
  assumes c: "call E st = Inr t" and fin: "isfinite t" and dv: "density E st = Inr v"
  shows "\<exists>distance mass cp. getitem (parameters st) ''distance'' = Inr distance
           \<and> getitem (parameters st) ''mass'' = Inr mass
           \<and> get_param (parameters st) ''cos_inclination'' = Inr cp"
proof -
  have 1: "\<exists>distance. getitem (parameters st) ''distance'' = Inr distance"
    using dv fin by (cases "getitem (parameters st) ''distance''") (simp_all add: density_def c)
  then obtain distance where d: "getitem (parameters st) ''distance'' = Inr distance" ..
  have 2: "\<exists>mass. getitem (parameters st) ''mass'' = Inr mass"
    using dv fin by (cases "getitem (parameters st) ''mass''") (simp_all add: density_def c d Let_def)
  then obtain mass where m: "getitem (parameters st) ''mass'' = Inr mass" ..
  have 3: "\<exists>cp. get_param (parameters st) ''cos_inclination'' = Inr cp"
    using dv fin
    by (cases "get_param (parameters st) ''cos_inclination''") (simp_all add: density_def c d m Let_def)
  from d m 3 show ?thesis by blast
qed

lemma bivariate_normal_pdf_nonneg: "0 \<le> bivariate_normal_pdf x y m1 m2 0.104 0.104 0.916"
  unfolding bivariate_normal_pdf_def
  by (intro divide_nonneg_nonneg mult_nonneg_nonneg real_sqrt_ge_zero) (simp_all add: power2_eq_square)

lemma density_product_nonneg:
  assumes "\<forall>x a l s. 0 \<le> skewnorm_pdf E x a l s"
    and "\<forall>x a b l s. 0 \<le> truncnorm_pdf E x a b l s"
  shows "0 \<le> density_product E distance mass cosi lo"
  using assms unfolding density_product_def Let_def
  by (intro mult_nonneg_nonneg) blast+

lemma density_value:
  assumes c: "call E st = Inr t" and fin: "isfinite t"
    and d: "getitem (parameters st) ''distance'' = Inr distance"
    and m: "getitem (parameters st) ''mass'' = Inr mass"
    and cp: "get_param (parameters st) ''cos_inclination'' = Inr cp"
  shows "getitem (parameters st) ''PN__alpha'' = Inl e \<Longrightarrow>
           density E st = Inr (density_product E distance mass (val cp) (fst (strict_bounds cp)))"
    and "getitem (parameters st) ''PN__alpha'' = Inr pa \<Longrightarrow>
         getitem (parameters st) ''XTI__alpha'' = Inr xa \<Longrightarrow>
           density E st = Inr (density_product E distance mass (val cp) (fst (strict_bounds cp))
                                * bivariate_normal_pdf xa pa 1.0 1.0 0.104 0.104 0.916)"
    and "getitem (parameters st) ''PN__alpha'' = Inr pa \<Longrightarrow>
         getitem (parameters st) ''XTI__alpha'' = Inl e \<Longrightarrow>
           density E st = Inl KeyError"
proof -
  note u = density_unfold [OF c fin d m cp]
  show "getitem (parameters st) ''PN__alpha'' = Inl e \<Longrightarrow>
           density E st = Inr (density_product E distance mass (val cp) (fst (strict_bounds cp)))"
    using u getitem_error [of "parameters st" "''PN__alpha''" e] by simp
  show "getitem (parameters st) ''PN__alpha'' = Inr pa \<Longrightarrow>
         getitem (parameters st) ''XTI__alpha'' = Inr xa \<Longrightarrow>
           density E st = Inr (density_product E distance mass (val cp) (fst (strict_bounds cp))
                                * bivariate_normal_pdf xa pa 1.0 1.0 0.104 0.104 0.916)"
    using u by simp
  show "getitem (parameters st) ''PN__alpha'' = Inr pa \<Longrightarrow>
         getitem (parameters st) ''XTI__alpha'' = Inl e \<Longrightarrow>
           density E st = Inl KeyError"
    using u getitem_error [of "parameters st" "''XTI__alpha''" e] by simp
qed

lemma density_nonneg_aux:
  assumes sk: "\<forall>x a l s. 0 \<le> skewnorm_pdf E x a l s"
    and tr: "\<forall>x a b l s. 0 \<le> truncnorm_pdf E x a b l s"
    and dv: "density E st = Inr v"
  shows "0 \<le> v"
proof (cases "call E st")
  case (Inl e)
  with dv show ?thesis by (simp add: density_of_call(1))
next
  case c: (Inr t)
  show ?thesis
  proof (cases "isfinite t")
    case False
    with c dv show ?thesis by (simp add: density_of_call(2))
  next
    case fin: True
    from density_lookups [OF c fin dv] obtain distance mass cp
      where d: "getitem (parameters st) ''distance'' = Inr distance"
        and m: "getitem (parameters st) ''mass'' = Inr mass"
        and cp: "get_param (parameters st) ''cos_inclination'' = Inr cp" by blast
    note dval = density_value [OF c fin d m cp]
    note pn = density_product_nonneg [OF sk tr, of distance mass "val cp" "fst (strict_bounds cp)"]
    show ?thesis
    proof (cases "getitem (parameters st) ''PN__alpha''")
      case (Inl e)
      from dval(1) [OF Inl] dv pn show ?thesis by simp
    next
      case pa: (Inr pa)
      show ?thesis
      proof (cases "getitem (parameters st) ''XTI__alpha''")
        case (Inl e)
        from dval(3) [OF pa Inl] dv show ?thesis by simp
      next
        case (Inr xa)
        have "0 \<le> density_product E distance mass (val cp) (fst (strict_bounds cp))
                 * bivariate_normal_pdf xa pa 1.0 1.0 0.104 0.104 0.916"
          using pn bivariate_normal_pdf_nonneg by (rule mult_nonneg_nonneg)
        with dval(2) [OF pa Inr] dv show ?thesis by simp
      qed
    qed
  qed
qed

lemma density_returns:
  assumes c: "call E st = Inr t"
    and d: "getitem (parameters st) ''distance'' = Inr distance"
    and m: "getitem (parameters st) ''mass'' = Inr mass"
    and ci: "getitem (parameters st) ''cos_inclination'' = Inr cosi"
    and x: "getitem (parameters st) ''PN__alpha'' = Inl KeyError
            \<or> (\<exists>xa. getitem (parameters st) ''XTI__alpha'' = Inr xa)"
  shows "\<exists>v. density E st = Inr v"
proof (cases "isfinite t")
  case False
  with c show ?thesis by (simp add: density_of_call(2))
next
  case fin: True
  from getitem_Inr [OF ci] obtain cp
    where cp: "get_param (parameters st) ''cos_inclination'' = Inr cp" by blast
  note dval = density_value [OF c fin d m cp]
  show ?thesis
  proof (cases "getitem (parameters st) ''PN__alpha''")
    case (Inl e)
    from dval(1) [OF Inl] show ?thesis by blast
  next
    case pa: (Inr pa)
    with x obtain xa where "getitem (parameters st) ''XTI__alpha'' = Inr xa" by auto
    from dval(2) [OF pa this] show ?thesis by blast
  qed
qed

text \<open>The values read from the variants of the instance, and the evaluator on them.\<close>

lemma st_XTI_only_items:
  "getitem (parameters st_XTI_only) ''distance'' = Inr 1.0"
  "getitem (parameters st_XTI_only) ''radius'' = Inr 12.0"
  "getitem (parameters st_XTI_only) ''p__super_colatitude'' = Inr (pi / 2)"
  "getitem (parameters st_XTI_only) ''s__super_colatitude'' = Inr (pi / 2)"
  "getitem (parameters st_XTI_only) ''p__phase_shift'' = Inr 0.75"
  "getitem (parameters st_XTI_only) ''s__phase_shift'' = Inr 0.0"
  "getitem (parameters st_XTI_only) ''p__super_radius'' = Inr 0.1"
  "getitem (parameters st_XTI_only) ''s__super_radius'' = Inr 0.1"
  by (simp_all add: st_XTI_only_def params_XTI_only_def params_PN_only_def instance_defs)

lemma st_PN_only_items:
  "getitem (parameters st_PN_only) ''distance'' = Inr 1.0"
  "getitem (parameters st_PN_only) ''radius'' = Inr 12.0"
  "getitem (parameters st_PN_only) ''p__super_colatitude'' = Inr (pi / 2)"
  "getitem (parameters st_PN_only) ''s__super_colatitude'' = Inr (pi / 2)"
  "getitem (parameters st_PN_only) ''p__phase_shift'' = Inr 0.75"
  "getitem (parameters st_PN_only) ''s__phase_shift'' = Inr 0.0"
  "getitem (parameters st_PN_only) ''p__super_radius'' = Inr 0.1"
  "getitem (parameters st_PN_only) ''s__super_radius'' = Inr 0.1"
  by (simp_all add: st_PN_only_def params_XTI_only_def params_PN_only_def instance_defs)

lemma st0_density_items:
  "getitem (parameters st0) ''distance'' = Inr 1.0"
  "getitem (parameters st0) ''mass'' = Inr 2.0"
  "get_param (parameters st0) ''cos_inclination''
     = Inr (mk_param ''cos_inclination'' 0.04 0.0 1.0)"
  "getitem (parameters st0) ''cos_inclination'' = Inr 0.04"
  by (simp_all add: st0_def params_XTI_only_def params_PN_only_def instance_defs)

lemma st_XTI_only_density_items:
  "getitem (parameters st_XTI_only) ''distance'' = Inr 1.0"
  "getitem (parameters st_XTI_only) ''mass'' = Inr 2.0"
  "get_param (parameters st_XTI_only) ''cos_inclination''
     = Inr (mk_param ''cos_inclination'' 0.04 0.0 1.0)"
  "getitem (parameters st_XTI_only) ''cos_inclination'' = Inr 0.04"
  by (simp_all add: st_XTI_only_def params_XTI_only_def params_PN_only_def instance_defs)

lemma st_PN_only_density_items:
  "getitem (parameters st_PN_only) ''distance'' = Inr 1.0"
  "getitem (parameters st_PN_only) ''mass'' = Inr 2.0"
  "get_param (parameters st_PN_only) ''cos_inclination''
     = Inr (mk_param ''cos_inclination'' 0.04 0.0 1.0)"
  "getitem (parameters st_PN_only) ''cos_inclination'' = Inr 0.04"
  by (simp_all add: st_PN_only_def params_XTI_only_def params_PN_only_def instance_defs)

lemma alpha_items:
  "getitem (parameters st0) ''XTI__alpha'' = Inr 1.0"
  "getitem (parameters st0) ''PN__alpha'' = Inr 1.0"
  "getitem (parameters st_XTI_only) ''PN__alpha'' = Inl KeyError"
  "getitem (parameters st_PN_only) ''PN__alpha'' = Inr 1.0"
  "getitem (parameters st_PN_only) ''XTI__alpha'' = Inl KeyError"
  by (simp_all add: st0_def st_XTI_only_def st_PN_only_def params_XTI_only_def params_PN_only_def
      instance_defs)

lemma variant_base_finite:
  "isfinite (prior_call env0 st_XTI_only)"
  "isfinite (prior_call env0 st_PN_only)"
  using pi_ge_two
  by (simp_all add: st_XTI_only_def st_PN_only_def params_XTI_only_def params_PN_only_def
      instance_defs env0_def bounds_check_def)

lemma variant_verdicts:
  "support_verdicts env0 (star_spacetime st_XTI_only) 1.0 12.0 (pi / 2) (pi / 2) 0.75 0.0 0.1 0.1
   = support_verdicts env0 (star_spacetime st0) 1.0 12.0 (pi / 2) (pi / 2) 0.75 0.0 0.1 0.1"
  "support_verdicts env0 (star_spacetime st_PN_only) 1.0 12.0 (pi / 2) (pi / 2) 0.75 0.0 0.1 0.1
   = support_verdicts env0 (star_spacetime st0) 1.0 12.0 (pi / 2) (pi / 2) 0.75 0.0 0.1 0.1"
  by (simp_all add: st_XTI_only_def st_PN_only_def st0_def mk_state_def)

lemma st0_call: "call env0 st0 = Inr (Fin 0)"
proof -
  have f: "isfinite (prior_call env0 st0)"
    unfolding st0_def by (rule mk_state_base_finite) simp_all
  have "verdict_in_order
      (support_verdicts env0 (star_spacetime st0) 1.0 12.0 (pi / 2) (pi / 2) 0.75 0.0 0.1 0.1)
      = Some True"
    unfolding st0_verdicts by simp
  from call_in_order [OF f mk_state_items [of "2.0" "12.0" "0.03", folded st0_def] this]
  show ?thesis by simp
qed

lemma st_XTI_only_call: "call env0 st_XTI_only = Inr (Fin 0)"
proof -
  have "verdict_in_order
      (support_verdicts env0 (star_spacetime st_XTI_only) 1.0 12.0 (pi / 2) (pi / 2) 0.75 0.0 0.1 0.1)
      = Some True"
    unfolding variant_verdicts st0_verdicts by simp
  from call_in_order [OF variant_base_finite(1)
      st_XTI_only_items this]
  show ?thesis by simp
qed

lemma st_PN_only_call: "call env0 st_PN_only = Inr (Fin 0)"
proof -
  have "verdict_in_order
      (support_verdicts env0 (star_spacetime st_PN_only) 1.0 12.0 (pi / 2) (pi / 2) 0.75 0.0 0.1 0.1)
      = Some True"
    unfolding variant_verdicts st0_verdicts by simp
  from call_in_order [OF variant_base_finite(2)
      st_PN_only_items this]
  show ?thesis by simp
qed

lemma st_photon_call: "call env0 st_photon = Inr NegInf"
proof -
  have f: "isfinite (prior_call env0 st_photon)"
    unfolding st_photon_def by (rule mk_state_base_finite) simp_all
  have "verdict_in_order
      (support_verdicts env0 (star_spacetime st_photon) 1.0 12.0 (pi / 2) (pi / 2) 0.75 0.0 0.1 0.1)
      = Some False"
    unfolding st_photon_verdicts by simp
  from call_in_order [OF f mk_state_items [of "3.0" "12.0" "0.03", folded st_photon_def] this]
  show ?thesis by simp
qed

text \<open>
  Claim C3: for every parameter vector inside the support, \<open>density\<close> equals the product
  of the skew-normal pdf of the distance (skewness \<open>1.7\<close>, location \<open>1.002\<close>, scale
  \<open>0.227\<close>), the truncated-normal pdf of the mass (truncated at five standard deviations
  on both sides, location \<open>2.082\<close>, scale \<open>0.0703\<close>) and the truncated-normal pdf of the
  cosine of the inclination (conditional location
  \<open>mu_cosi + (std_cosi / std_m) * corr * (mass - mu_m)\<close>, conditional scale
  \<open>sqrt (1 - corr\<^sup>2) * std_cosi\<close>, lower bound
  \<open>min (-10.0) ((strict_lower - location) / scale)\<close>, upper bound \<open>10.0\<close>): this product
  is \<open>density_product\<close>.  When \<open>PN__alpha\<close> is present the product is multiplied by the
  bivariate normal density of the two instrument scale factors, with correlation \<open>0.916\<close>,
  standard deviations \<open>0.104\<close> and both means \<open>1.0\<close>.  Inside the support: the support
  evaluator returns a finite value.  The names \<open>distance\<close>, \<open>mass\<close> and
  \<open>cos_inclination\<close> are in the container.
\<close>

theorem density_in_support:
  assumes c: "call E st = Inr t" and fin: "isfinite t"
    and d: "getitem (parameters st) ''distance'' = Inr distance"
    and m: "getitem (parameters st) ''mass'' = Inr mass"
    and cp: "get_param (parameters st) ''cos_inclination'' = Inr cp"
  shows "(getitem (parameters st) ''PN__alpha'' = Inl KeyError \<longrightarrow>
            density E st = Inr (density_product E distance mass (val cp) (fst (strict_bounds cp))))
       \<and> (\<forall>pa xa. getitem (parameters st) ''PN__alpha'' = Inr pa
                  \<and> getitem (parameters st) ''XTI__alpha'' = Inr xa \<longrightarrow>
            density E st = Inr (density_product E distance mass (val cp) (fst (strict_bounds cp))
                                 * bivariate_normal_pdf xa pa 1.0 1.0 0.104 0.104 0.916))"
  using density_value(1,2) [OF c fin d m cp] by blast

text \<open>The theorem at a vector with both scale factors and at one with the first only.\<close>

theorem density_in_support_witness:
  "density env0 st0 =
     Inr (density_product env0 1.0 2.0 0.04 0.0 * bivariate_normal_pdf 1.0 1.0 1.0 1.0 0.104 0.104 0.916)
   \<and> density env0 st_XTI_only = Inr (density_product env0 1.0 2.0 0.04 0.0)"
proof -
  have fin: "isfinite (Fin 0)" by simp
  have "density env0 st0 =
     Inr (density_product env0 1.0 2.0 0.04 0.0 * bivariate_normal_pdf 1.0 1.0 1.0 1.0 0.104 0.104 0.916)"
    using density_in_support [OF st0_call fin
        st0_density_items(1,2,3)]
      alpha_items(1,2)
    by (simp add: mk_param_def)
  moreover have "density env0 st_XTI_only = Inr (density_product env0 1.0 2.0 0.04 0.0)"
    using density_in_support [OF st_XTI_only_call fin
        st_XTI_only_density_items(1,2,3)]
      alpha_items(3)
    by (simp add: mk_param_def)
  ultimately show ?thesis by blast
qed

text \<open>
  Claim C2: \<open>density\<close> returns a value that is not negative, and exactly \<open>0.0\<close> whenever
  \<open>__call__\<close> returns a value that is not finite.  The densities of scipy are collaborators
  and are not negative.  The third part says that a value is returned: the evaluator
  returns, the three names are in the container, and \<open>XTI__alpha\<close> is there when
  \<open>PN__alpha\<close> is.
\<close>

theorem density_nonnegative:
  assumes sk: "\<forall>x a l s. 0 \<le> skewnorm_pdf E x a l s"
    and tr: "\<forall>x a b l s. 0 \<le> truncnorm_pdf E x a b l s"
  shows "(\<forall>v. density E st = Inr v \<longrightarrow> 0 \<le> v)
       \<and> (\<forall>t. call E st = Inr t \<and> \<not> isfinite t \<longrightarrow> density E st = Inr 0)
       \<and> (\<forall>t distance mass cosi.
             call E st = Inr t
             \<and> getitem (parameters st) ''distance'' = Inr distance
             \<and> getitem (parameters st) ''mass'' = Inr mass
             \<and> getitem (parameters st) ''cos_inclination'' = Inr cosi
             \<and> (getitem (parameters st) ''PN__alpha'' = Inl KeyError
                \<or> (\<exists>xa. getitem (parameters st) ''XTI__alpha'' = Inr xa))
             \<longrightarrow> (\<exists>v. density E st = Inr v \<and> 0 \<le> v))"
proof (intro conjI allI impI)
  fix v assume "density E st = Inr v"
  with sk tr show "0 \<le> v" by (rule density_nonneg_aux)
next
  fix t assume "call E st = Inr t \<and> \<not> isfinite t"
  then show "density E st = Inr 0" by (simp add: density_of_call(2))
next
  fix t distance mass cosi
  assume a: "call E st = Inr t
             \<and> getitem (parameters st) ''distance'' = Inr distance
             \<and> getitem (parameters st) ''mass'' = Inr mass
             \<and> getitem (parameters st) ''cos_inclination'' = Inr cosi
             \<and> (getitem (parameters st) ''PN__alpha'' = Inl KeyError
                \<or> (\<exists>xa. getitem (parameters st) ''XTI__alpha'' = Inr xa))"
  then obtain v where v: "density E st = Inr v"
    using density_returns [of E st t distance mass cosi] by blast
  with sk tr have "0 \<le> v" by (rule density_nonneg_aux)
  with v show "\<exists>v. density E st = Inr v \<and> 0 \<le> v" by blast
qed

text \<open>The theorem at an admissible vector and at one outside the support.\<close>

theorem density_nonnegative_witness:
  "(\<exists>v. density env0 st0 = Inr v \<and> 0 \<le> v)
   \<and> call env0 st_photon = Inr NegInf \<and> density env0 st_photon = Inr 0"
proof -
  have sk: "\<forall>x a l s. 0 \<le> skewnorm_pdf env0 x a l s"
    and tr: "\<forall>x a b l s. 0 \<le> truncnorm_pdf env0 x a b l s"
    by (simp_all add: env0_def)
  note w = density_nonnegative [OF sk tr]
  have "\<exists>v. density env0 st0 = Inr v \<and> 0 \<le> v"
    using w [of st0] st0_call
      st0_density_items(1,2,4) alpha_items(1)
    by blast
  moreover have "density env0 st_photon = Inr 0"
    using w [of st_photon] st_photon_call by simp
  ultimately show ?thesis using st_photon_call by blast
qed

section \<open>Inverse sampling\<close>

text \<open>Positions and lookups in the container.\<close>

lemma index_error: "index ps n = Inl e \<Longrightarrow> e = KeyError"
  by (induction ps arbitrary: e) (auto simp: py_bind_def split: if_splits sum.splits)

lemma index_props:
  "index ps n = Inr i \<Longrightarrow> i < length ps \<and> name (ps ! i) = n \<and> get_param ps n = Inr (ps ! i)"
proof (induction ps arbitrary: i)
  case Nil
  then show ?case by simp
next
  case (Cons q qs)
  show ?case
  proof (cases "name q = n")
    case True
    with Cons.prems show ?thesis by simp
  next
    case False
    with Cons.prems obtain k where k: "index qs n = Inr k" and i: "i = Suc k"
      by (cases "index qs n") auto
    from Cons.IH [OF k] False i show ?thesis by simp
  qed
qed

lemma get_param_index: "get_param ps n = Inr q \<Longrightarrow> \<exists>i. index ps n = Inr i"
  by (induction ps) (auto split: if_splits)

lemma getitem_index: "getitem ps n = Inr x \<Longrightarrow> \<exists>i. index ps n = Inr i"
  by (cases "get_param ps n") (auto simp: getitem_def dest: get_param_index)

lemma index_getitem: "index ps n = Inr i \<Longrightarrow> getitem ps n = Inr (vector ps ! i)"
  using index_props [of ps n i] by (simp add: getitem_def vector_def)

lemma index_absent: "index ps n = Inl e \<Longrightarrow> getitem ps n = Inl KeyError"
proof (induction ps)
  case Nil
  then show ?case by (simp add: getitem_def)
next
  case (Cons q qs)
  then show ?case
    by (cases "index qs n") (auto simp: getitem_def split: if_splits)
qed

lemma index_cong: "map name ps = map name ps' \<Longrightarrow> index ps n = index ps' n"
proof (induction ps arbitrary: ps')
  case Nil
  then show ?case by simp
next
  case (Cons q qs)
  then obtain q' qs' where ps': "ps' = q' # qs'" and n: "name q = name q'"
    and r: "map name qs = map name qs'" by auto
  from Cons.IH [OF r] n show ?case by (simp add: ps')
qed

lemma setitem_index:
  "index ps n = Inr i \<Longrightarrow> setitem ps n v = Inr (ps[i := (ps ! i)\<lparr>val := v\<rparr>])"
proof (induction ps arbitrary: i)
  case Nil
  then show ?case by simp
next
  case (Cons q qs)
  show ?case
  proof (cases "name q = n")
    case True
    with Cons.prems show ?thesis by simp
  next
    case False
    with Cons.prems obtain k where k: "index qs n = Inr k" and i: "i = Suc k"
      by (cases "index qs n") auto
    from Cons.IH [OF k] False i show ?thesis by simp
  qed
qed

text \<open>Assignments change values only.\<close>

lemma same_frame_refl: "same_frame ps ps"
  by (simp add: same_frame_def)

lemma same_frame_trans: "same_frame ps ps' \<Longrightarrow> same_frame ps' ps'' \<Longrightarrow> same_frame ps ps''"
  by (simp add: same_frame_def)

lemma same_frame_update: "i < length ps \<Longrightarrow> same_frame ps (ps[i := (ps ! i)\<lparr>val := v\<rparr>])"
  by (simp add: same_frame_def map_update list_update_same_conv)

lemma same_frame_maps:
  assumes "same_frame ps ps'"
  shows "length ps' = length ps" "map name ps' = map name ps" "map bounds ps' = map bounds ps"
    "map strict_bounds ps' = map strict_bounds ps" "map cached ps' = map cached ps"
proof -
  let ?z = "\<lambda>q :: param. q\<lparr>val := 0\<rparr>"
  from assms have e: "map ?z ps' = map ?z ps" by (simp add: same_frame_def)
  from arg_cong [OF e, of length] show "length ps' = length ps" by simp
  from arg_cong [OF e, of "map name"] show "map name ps' = map name ps" by (simp add: comp_def)
  from arg_cong [OF e, of "map bounds"] show "map bounds ps' = map bounds ps" by (simp add: comp_def)
  from arg_cong [OF e, of "map strict_bounds"]
  show "map strict_bounds ps' = map strict_bounds ps" by (simp add: comp_def)
  from arg_cong [OF e, of "map cached"] show "map cached ps' = map cached ps" by (simp add: comp_def)
qed

lemma same_frame_index: "same_frame ps ps' \<Longrightarrow> index ps' n = index ps n"
  by (rule index_cong) (rule same_frame_maps)

lemma same_frame_nth:
  assumes "same_frame ps ps'" "i < length ps"
  shows "bounds (ps' ! i) = bounds (ps ! i)" "strict_bounds (ps' ! i) = strict_bounds (ps ! i)"
proof -
  from same_frame_maps(1,3) [OF assms(1)] assms(2)
  have "map bounds ps' ! i = map bounds ps ! i" by simp
  with same_frame_maps(1) [OF assms(1)] assms(2) show "bounds (ps' ! i) = bounds (ps ! i)" by simp
  from same_frame_maps(1,4) [OF assms(1)] assms(2)
  have "map strict_bounds ps' ! i = map strict_bounds ps ! i" by simp
  with same_frame_maps(1) [OF assms(1)] assms(2)
  show "strict_bounds (ps' ! i) = strict_bounds (ps ! i)" by simp
qed

lemma length_vector: "length (vector ps) = length ps"
  by (simp add: vector_def)

lemma vector_update: "vector (ps[i := (ps ! i)\<lparr>val := v\<rparr>]) = (vector ps)[i := v]"
  by (simp add: vector_def map_update)

text \<open>The base method returns when the hypercube is long enough, and sets the value at
  position \<open>j\<close> from the bounds there and from entry \<open>j\<close> of the hypercube.\<close>

lemma base_inverse_sample_returns:
  "k + length ps \<le> length u \<Longrightarrow>
     \<exists>ps'. base_inverse_sample u k ps = Inr ps' \<and> same_frame ps ps'"
proof (induction ps arbitrary: k)
  case Nil
  then show ?case by (simp add: same_frame_def)
next
  case (Cons q qs)
  then have "Suc k + length qs \<le> length u" by simp
  from Cons.IH [OF this] obtain qs' where
    "base_inverse_sample u (Suc k) qs = Inr qs'" "same_frame qs qs'" by blast
  with Cons.prems show ?case
    by (simp add: py_nth_def same_frame_def)
qed

text \<open>The loop of lines 238 and 239 changes cached values only.\<close>

lemma vector_restore_cache: "vector (restore_cache ps cs) = vector ps"
  by (induction ps cs rule: restore_cache.induct) (simp_all add: vector_def)


lemma index_restore_cache: "index (restore_cache ps cs) n = index ps n"
proof (rule index_cong)
  show "map name (restore_cache ps cs) = map name ps"
    by (induction ps cs rule: restore_cache.induct) simp_all
qed

lemma index_distinct:
  "index ps n = Inr i \<Longrightarrow> index ps m = Inr j \<Longrightarrow> n \<noteq> m \<Longrightarrow> i \<noteq> j"
  using index_props [of ps n i] index_props [of ps m j] by auto

lemma step_frame:
  assumes f: "same_frame ps r" and i: "index ps n = Inr i"
  shows "i < length r"
    and "bounds (r ! i) = bounds (ps ! i)"
    and "strict_bounds (r ! i) = strict_bounds (ps ! i)"
    and "get_param r n = Inr (r ! i)"
    and "index r n = Inr i"
proof -
  from i show ir: "index r n = Inr i" by (simp add: same_frame_index [OF f])
  from index_props [OF i] have l: "i < length ps" by blast
  with same_frame_maps(1) [OF f] show "i < length r" by simp
  from same_frame_nth [OF f l] show "bounds (r ! i) = bounds (ps ! i)"
    and "strict_bounds (r ! i) = strict_bounds (ps ! i)" by simp_all
  from index_props [OF ir] show "get_param r n = Inr (r ! i)" by blast
qed

lemma step_setitem:
  assumes f: "same_frame ps r" and i: "index ps n = Inr i"
  shows "setitem r n x = Inr (r[i := (r ! i)\<lparr>val := x\<rparr>])"
    and "same_frame ps (r[i := (r ! i)\<lparr>val := x\<rparr>])"
    and "vector (r[i := (r ! i)\<lparr>val := x\<rparr>]) = (vector r)[i := x]"
proof -
  note g = step_frame [OF f i]
  from setitem_index [OF g(5)] show "setitem r n x = Inr (r[i := (r ! i)\<lparr>val := x\<rparr>])" .
  from same_frame_trans [OF f same_frame_update [OF g(1)]]
  show "same_frame ps (r[i := (r ! i)\<lparr>val := x\<rparr>])" .
  show "vector (r[i := (r ! i)\<lparr>val := x\<rparr>]) = (vector r)[i := x]" by (rule vector_update)
qed

text \<open>The argument of \<^verbatim>\<open>math.acos\<close> at lines 192 and 197 is a convex combination of two
  cosines, hence in \<open>[-1, 1]\<close>.\<close>

lemma acos_argument:
  fixes a b h :: real
  assumes "- 1 \<le> a" "a \<le> 1" "- 1 \<le> b" "b \<le> 1" "0 \<le> h" "h \<le> 1"
  shows "\<not> (b + (a - b) * h < - 1 \<or> 1 < b + (a - b) * h)"
proof -
  have e: "b + (a - b) * h = (1 - h) * b + h * a" by (simp add: algebra_simps)
  have "(1 - h) * b \<le> (1 - h) * 1" "h * a \<le> h * 1"
    using assms by (intro mult_left_mono; simp)+
  moreover have "(1 - h) * (- 1) \<le> (1 - h) * b" "h * (- 1) \<le> h * a"
    using assms by (intro mult_left_mono; simp)+
  ultimately show ?thesis unfolding e by simp
qed

lemma base_inverse_sample_nth:
  "base_inverse_sample u k ps = Inr ps' \<Longrightarrow> j < length ps \<Longrightarrow>
     vector ps' ! j = fst (bounds (ps ! j)) + (snd (bounds (ps ! j)) - fst (bounds (ps ! j))) * u ! (k + j)"
proof (induction ps arbitrary: k ps' j)
  case Nil
  then show ?case by simp
next
  case (Cons q qs)
  from Cons.prems(1) obtain h qs' where h: "py_nth u k = Inr h"
    and qs': "base_inverse_sample u (Suc k) qs = Inr qs'"
    and ps': "ps' = q\<lparr>val := fst (bounds q) + (snd (bounds q) - fst (bounds q)) * h\<rparr> # qs'"
    by (cases "py_nth u k"; cases "base_inverse_sample u (Suc k) qs") auto
  from h have hk: "h = u ! k" by (auto simp: py_nth_def split: if_splits)
  show ?case
  proof (cases j)
    case 0
    then show ?thesis by (simp add: ps' hk vector_def)
  next
    case (Suc j')
    with Cons.prems(2) have "j' < length qs" by simp
    from Cons.IH [OF qs' this] Suc show ?thesis by (simp add: ps' vector_def)
  qed
qed

text \<open>
  The call returns when the hypercube is long enough, the five names that the source
  looks up without a guard are in the container, and the hypercube entries of the two
  colatitudes are in \<open>[0, 1]\<close>.  The returned vector is the vector of \<open>r\<close>, the
  parameters before the cached values are restored, and each of its entries is given.
\<close>

lemma inverse_sample_master:
  assumes len: "length (parameters st) \<le> length u"
    and iD: "index (parameters st) ''distance'' = Inr iD"
    and iM: "index (parameters st) ''mass'' = Inr iM"
    and iC: "index (parameters st) ''cos_inclination'' = Inr iC"
    and iP: "index (parameters st) ''p__super_colatitude'' = Inr iP"
    and iS: "index (parameters st) ''s__super_colatitude'' = Inr iS"
    and uP: "0 \<le> u ! iP" "u ! iP \<le> 1"
    and uS: "0 \<le> u ! iS" "u ! iS \<le> 1"
  shows "\<exists>r. inverse_sample E rand (Some u) st
              = Inr (vector r, st\<lparr>parameters := restore_cache r (vector (parameters st))\<rparr>)
     \<and> same_frame (parameters st) r
     \<and> vector r ! iD = skewnorm_ppf E (u ! iD) 1.7 1.002 0.227
     \<and> vector r ! iM = truncnorm_ppf E (u ! iM) (- 5.0) 5.0 mu_m std_m
     \<and> vector r ! iC =
          truncnorm_ppf E (u ! iC)
            (min (- 10.0) ((fst (strict_bounds (parameters st ! iC))
                            - (mu_cosi + (std_cosi / std_m) * corr * (vector r ! iM - mu_m))) / cond_std))
            10.0 (mu_cosi + (std_cosi / std_m) * corr * (vector r ! iM - mu_m)) cond_std
     \<and> vector r ! iP =
          arccos (cos (snd (bounds (parameters st ! iP)))
                  + (cos (fst (bounds (parameters st ! iP))) - cos (snd (bounds (parameters st ! iP))))
                    * u ! iP)
     \<and> vector r ! iS =
          arccos (cos (snd (bounds (parameters st ! iS)))
                  + (cos (fst (bounds (parameters st ! iS))) - cos (snd (bounds (parameters st ! iS))))
                    * u ! iS)
     \<and> (\<forall>k. index (parameters st) ''XTI__alpha'' = Inr k \<longrightarrow>
              vector r ! k = truncnorm_ppf E (u ! k) (- 5.0) 5.0 1.0 0.104)
     \<and> (\<forall>k. index (parameters st) ''PN__alpha'' = Inr k \<longrightarrow>
              (case index (parameters st) ''XTI__alpha'' of
                 Inl e \<Rightarrow> vector r ! k = truncnorm_ppf E (u ! k) (- 5.0) 5.0 1.0 0.104
               | Inr kx \<Rightarrow> vector r ! k =
                   truncnorm_ppf E (u ! k) (- 5.0) 5.0 (1.0 + 0.916 * (vector r ! kx - 1.0))
                     cond_std_alpha))
     \<and> (\<forall>j < length (parameters st).
            j \<noteq> iD \<and> j \<noteq> iM \<and> j \<noteq> iC \<and> j \<noteq> iP \<and> j \<noteq> iS
            \<and> index (parameters st) ''XTI__alpha'' \<noteq> Inr j
            \<and> index (parameters st) ''PN__alpha'' \<noteq> Inr j \<longrightarrow>
            vector r ! j = fst (bounds (parameters st ! j))
                + (snd (bounds (parameters st ! j)) - fst (bounds (parameters st ! j))) * u ! j)"
proof -
  let ?ps = "parameters st"
  from len have "0 + length ?ps \<le> length u" by simp
  from base_inverse_sample_returns [OF this] obtain r0
    where b0: "base_inverse_sample u 0 ?ps = Inr r0" and f0: "same_frame ?ps r0" by blast
  have lu: "i < length u" if "index ?ps n = Inr i" for n i
    using index_props [OF that] len by simp
  have l0: "length (vector r0) = length ?ps"
    using same_frame_maps(1) [OF f0] by (simp add: vector_def)
  \<comment> \<open>distance\<close>
  define xD where "xD = skewnorm_ppf E (u ! iD) 1.7 1.002 0.227"
  define r1 where "r1 = r0[iD := (r0 ! iD)\<lparr>val := xD\<rparr>]"
  note t1 = step_setitem [OF f0 iD, of xD, folded r1_def]
  note g1 = step_frame [OF f0 iD]
  have s1: "sample_distance E u r0 = Inr r1"
    using lu [OF iD] t1(1)
    by (simp add: sample_distance_def g1(5) py_nth_def xD_def)
  \<comment> \<open>mass\<close>
  define xM where "xM = truncnorm_ppf E (u ! iM) (- 5.0) 5.0 mu_m std_m"
  define r2 where "r2 = r1[iM := (r1 ! iM)\<lparr>val := xM\<rparr>]"
  note t2 = step_setitem [OF t1(2) iM, of xM, folded r2_def]
  note g2 = step_frame [OF t1(2) iM]
  have s2: "sample_mass E u r1 = Inr r2"
    using lu [OF iM] t2(1)
    by (simp add: sample_mass_def g2(5) py_nth_def xM_def)
  have m2: "getitem r2 ''mass'' = Inr xM"
    using index_getitem [of r2 "''mass''" iM] t2(3) g2(1)
    by (simp add: same_frame_index [OF t2(2)] iM vector_def)
  \<comment> \<open>cos_inclination\<close>
  define loc where "loc = mu_cosi + (std_cosi / std_m) * corr * (xM - mu_m)"
  define xC where "xC = truncnorm_ppf E (u ! iC)
      (min (- 10.0) ((fst (strict_bounds (?ps ! iC)) - loc) / cond_std)) 10.0 loc cond_std"
  define r3 where "r3 = r2[iC := (r2 ! iC)\<lparr>val := xC\<rparr>]"
  note t3 = step_setitem [OF t2(2) iC, of xC, folded r3_def]
  note g3 = step_frame [OF t2(2) iC]
  have s3: "sample_cos_inclination E u r2 = Inr r3"
    using lu [OF iC] t3(1)
    by (simp add: sample_cos_inclination_def g3(3,4,5) py_nth_def m2 xC_def loc_def Let_def)
  \<comment> \<open>the two colatitudes\<close>
  define xP where "xP = arccos (cos (snd (bounds (?ps ! iP)))
       + (cos (fst (bounds (?ps ! iP))) - cos (snd (bounds (?ps ! iP)))) * u ! iP)"
  define r4 where "r4 = r3[iP := (r3 ! iP)\<lparr>val := xP\<rparr>]"
  note t4 = step_setitem [OF t3(2) iP, of xP, folded r4_def]
  note g4 = step_frame [OF t3(2) iP]
  have s4: "sample_colatitude u ''p__super_colatitude'' r3 = Inr r4"
    using lu [OF iP] acos_argument [OF _ _ _ _ uP,
        of "cos (fst (bounds (?ps ! iP)))" "cos (snd (bounds (?ps ! iP)))"]
      t4(1)
    by (simp add: sample_colatitude_def g4(2,4,5) py_nth_def math_acos_def xP_def Let_def)
  define xS where "xS = arccos (cos (snd (bounds (?ps ! iS)))
       + (cos (fst (bounds (?ps ! iS))) - cos (snd (bounds (?ps ! iS)))) * u ! iS)"
  define r5 where "r5 = r4[iS := (r4 ! iS)\<lparr>val := xS\<rparr>]"
  note t5 = step_setitem [OF t4(2) iS, of xS, folded r5_def]
  note g5 = step_frame [OF t4(2) iS]
  have s5: "sample_colatitude u ''s__super_colatitude'' r4 = Inr r5"
    using lu [OF iS] acos_argument [OF _ _ _ _ uS,
        of "cos (fst (bounds (?ps ! iS)))" "cos (snd (bounds (?ps ! iS)))"]
      t5(1)
    by (simp add: sample_colatitude_def g5(2,4,5) py_nth_def math_acos_def xS_def Let_def)
  have v5: "vector r5 = (vector r0)[iD := xD, iM := xM, iC := xC, iP := xP, iS := xS]"
    by (simp add: t5(3) t4(3) t3(3) t2(3) t1(3))
  \<comment> \<open>the first instrument scale factor\<close>
  define xX where "xX = (\<lambda>k. truncnorm_ppf E (u ! k) (- 5.0) 5.0 1.0 0.104)"
  define r6 where "r6 = (case index ?ps ''XTI__alpha'' of
      Inl e \<Rightarrow> r5 | Inr k \<Rightarrow> r5[k := (r5 ! k)\<lparr>val := xX k\<rparr>])"
  have s6: "sample_XTI_alpha E u r5 = Inr r6"
  proof (cases "index ?ps ''XTI__alpha''")
    case (Inl e)
    then have "index r5 ''XTI__alpha'' = Inl e" by (simp add: same_frame_index [OF t5(2)])
    from index_absent [OF this] Inl show ?thesis
      by (simp add: sample_XTI_alpha_def r6_def)
  next
    case (Inr k)
    note t = step_setitem [OF t5(2) Inr, of "xX k"]
    have "index r5 ''XTI__alpha'' = Inr k" by (simp add: same_frame_index [OF t5(2)] Inr)
    from index_getitem [OF this] this lu [OF Inr] Inr t(1) show ?thesis
      by (simp add: sample_XTI_alpha_def r6_def py_nth_def xX_def)
  qed
  have f6: "same_frame ?ps r6"
    using t5(2) by (auto simp: r6_def split: sum.splits intro: step_setitem(2))
  have v6: "vector r6 = (case index ?ps ''XTI__alpha'' of
      Inl e \<Rightarrow> vector r5 | Inr k \<Rightarrow> (vector r5)[k := xX k])"
    by (simp add: r6_def vector_update split: sum.splits)
  \<comment> \<open>the second instrument scale factor\<close>
  define xN where "xN = (\<lambda>k. case index ?ps ''XTI__alpha'' of
      Inl e \<Rightarrow> truncnorm_ppf E (u ! k) (- 5.0) 5.0 1.0 0.104
    | Inr kx \<Rightarrow> truncnorm_ppf E (u ! k) (- 5.0) 5.0 (1.0 + 0.916 * (xX kx - 1.0)) cond_std_alpha)"
  define r7 where "r7 = (case index ?ps ''PN__alpha'' of
      Inl e \<Rightarrow> r6 | Inr k \<Rightarrow> r6[k := (r6 ! k)\<lparr>val := xN k\<rparr>])"
  have s7: "sample_PN_alpha E u r6 = Inr r7"
  proof (cases "index ?ps ''PN__alpha''")
    case (Inl e)
    then have "index r6 ''PN__alpha'' = Inl e" by (simp add: same_frame_index [OF f6])
    from index_absent [OF this] Inl show ?thesis
      by (simp add: sample_PN_alpha_def r7_def)
  next
    case (Inr k)
    note t = step_setitem [OF f6 Inr, of "xN k"]
    have ik: "index r6 ''PN__alpha'' = Inr k" by (simp add: same_frame_index [OF f6] Inr)
    show ?thesis
    proof (cases "index ?ps ''XTI__alpha''")
      case (Inl e)
      then have "index r6 ''XTI__alpha'' = Inl e" by (simp add: same_frame_index [OF f6])
      from index_absent [OF this] index_getitem [OF ik] ik lu [OF Inr] Inr Inl t(1) show ?thesis
        by (simp add: sample_PN_alpha_def r7_def py_nth_def xN_def)
    next
      case kx: (Inr kx)
      have ix: "index r6 ''XTI__alpha'' = Inr kx" by (simp add: same_frame_index [OF f6] kx)
      have "kx < length r5" using step_frame(1) [OF t5(2) kx] .
      then have "vector r6 ! kx = xX kx"
        by (simp add: v6 kx length_vector)
      with index_getitem [OF ix] have "getitem r6 ''XTI__alpha'' = Inr (xX kx)" by simp
      with index_getitem [OF ik] ik lu [OF Inr] Inr kx t(1) show ?thesis
        by (simp add: sample_PN_alpha_def r7_def py_nth_def xN_def)
    qed
  qed
  have f7: "same_frame ?ps r7"
    using f6 by (auto simp: r7_def split: sum.splits intro: step_setitem(2))
  have v7: "vector r7 = (case index ?ps ''PN__alpha'' of
      Inl e \<Rightarrow> vector r6 | Inr k \<Rightarrow> (vector r6)[k := xN k])"
    by (simp add: r7_def vector_update split: sum.splits)
  have ret: "inverse_sample E rand (Some u) st
      = Inr (vector r7, st\<lparr>parameters := restore_cache r7 (vector ?ps)\<rparr>)"
    by (simp add: inverse_sample_def b0 s1 s2 s3 s4 s5 s6 s7 Let_def vector_restore_cache)
  \<comment> \<open>the entries of the returned vector\<close>
  have l5: "length (vector r5) = length ?ps" by (simp add: v5 l0)
  have lt: "i < length ?ps" if "index ?ps n = Inr i" for n i
    using index_props [OF that] by simp
  have keep: "vector r7 ! j = vector r5 ! j"
    if "index ?ps ''XTI__alpha'' \<noteq> Inr j" "index ?ps ''PN__alpha'' \<noteq> Inr j" for j
    using that by (auto simp: v7 v6 split: sum.splits)
  have other: "index ?ps ''XTI__alpha'' \<noteq> Inr i \<and> index ?ps ''PN__alpha'' \<noteq> Inr i"
    if "index ?ps n = Inr i" "n \<noteq> ''XTI__alpha''" "n \<noteq> ''PN__alpha''" for n i
    using index_distinct [OF that(1), of "''XTI__alpha''" i] index_distinct [OF that(1), of "''PN__alpha''" i]
      that(2,3) by blast
  have d: "iD \<noteq> iM" "iD \<noteq> iC" "iD \<noteq> iP" "iD \<noteq> iS" "iM \<noteq> iC" "iM \<noteq> iP" "iM \<noteq> iS"
    "iC \<noteq> iP" "iC \<noteq> iS" "iP \<noteq> iS"
    using index_distinct [OF iD iM] index_distinct [OF iD iC] index_distinct [OF iD iP]
      index_distinct [OF iD iS] index_distinct [OF iM iC] index_distinct [OF iM iP]
      index_distinct [OF iM iS] index_distinct [OF iC iP] index_distinct [OF iC iS]
      index_distinct [OF iP iS]
    by simp_all
  have eD: "vector r7 ! iD = xD"
    using keep [of iD] other [OF iD] lt [OF iD] d by (simp add: v5 l0)
  have eM: "vector r7 ! iM = xM"
    using keep [of iM] other [OF iM] lt [OF iM] d by (simp add: v5 l0)
  have eC: "vector r7 ! iC = xC"
    using keep [of iC] other [OF iC] lt [OF iC] d by (simp add: v5 l0)
  have eP: "vector r7 ! iP = xP"
    using keep [of iP] other [OF iP] lt [OF iP] d by (simp add: v5 l0)
  have eS: "vector r7 ! iS = xS"
    using keep [of iS] other [OF iS] lt [OF iS] d by (simp add: v5 l0)
  have eX: "vector r7 ! k = xX k" if k: "index ?ps ''XTI__alpha'' = Inr k" for k
  proof -
    have "index ?ps ''PN__alpha'' \<noteq> Inr k"
      using index_distinct [OF k, of "''PN__alpha''" k] by auto
    then have "vector r7 ! k = vector r6 ! k"
      by (auto simp: v7 split: sum.splits)
    with lt [OF k] show ?thesis by (simp add: v6 k l5)
  qed
  have l6: "length (vector r6) = length ?ps"
    by (simp add: v6 l5 split: sum.splits)
  have eN: "vector r7 ! k = xN k" if k: "index ?ps ''PN__alpha'' = Inr k" for k
    using lt [OF k] by (simp add: v7 k l6)
  have eB: "vector r7 ! j = fst (bounds (?ps ! j))
                + (snd (bounds (?ps ! j)) - fst (bounds (?ps ! j))) * u ! j"
    if j: "j < length ?ps" and n: "j \<noteq> iD \<and> j \<noteq> iM \<and> j \<noteq> iC \<and> j \<noteq> iP \<and> j \<noteq> iS
            \<and> index ?ps ''XTI__alpha'' \<noteq> Inr j \<and> index ?ps ''PN__alpha'' \<noteq> Inr j" for j
  proof -
    from keep [of j] n have "vector r7 ! j = vector r5 ! j" by blast
    also from n have "\<dots> = vector r0 ! j" by (simp add: v5)
    also from base_inverse_sample_nth [OF b0 j]
    have "\<dots> = fst (bounds (?ps ! j)) + (snd (bounds (?ps ! j)) - fst (bounds (?ps ! j))) * u ! j"
      by simp
    finally show ?thesis .
  qed
  have eN': "case index ?ps ''XTI__alpha'' of
                 Inl e \<Rightarrow> vector r7 ! k = truncnorm_ppf E (u ! k) (- 5.0) 5.0 1.0 0.104
               | Inr kx \<Rightarrow> vector r7 ! k =
                   truncnorm_ppf E (u ! k) (- 5.0) 5.0 (1.0 + 0.916 * (vector r7 ! kx - 1.0))
                     cond_std_alpha"
    if k: "index ?ps ''PN__alpha'' = Inr k" for k
  proof (cases "index ?ps ''XTI__alpha''")
    case (Inl e)
    with eN [OF k] show ?thesis by (simp add: xN_def)
  next
    case (Inr kx)
    with eN [OF k] eX [OF Inr] show ?thesis by (simp add: xN_def)
  qed
  show ?thesis
  proof (intro exI [of _ r7] conjI allI impI)
    show "inverse_sample E rand (Some u) st
      = Inr (vector r7, st\<lparr>parameters := restore_cache r7 (vector ?ps)\<rparr>)" by (rule ret)
    show "same_frame ?ps r7" by (rule f7)
    show "vector r7 ! iD = skewnorm_ppf E (u ! iD) 1.7 1.002 0.227"
      using eD by (simp add: xD_def)
    show "vector r7 ! iM = truncnorm_ppf E (u ! iM) (- 5.0) 5.0 mu_m std_m"
      using eM by (simp add: xM_def)
    show "vector r7 ! iC =
          truncnorm_ppf E (u ! iC)
            (min (- 10.0) ((fst (strict_bounds (?ps ! iC))
                            - (mu_cosi + (std_cosi / std_m) * corr * (vector r7 ! iM - mu_m))) / cond_std))
            10.0 (mu_cosi + (std_cosi / std_m) * corr * (vector r7 ! iM - mu_m)) cond_std"
      using eC eM by (simp add: xC_def loc_def)
    show "vector r7 ! iP =
          arccos (cos (snd (bounds (?ps ! iP)))
                  + (cos (fst (bounds (?ps ! iP))) - cos (snd (bounds (?ps ! iP)))) * u ! iP)"
      using eP by (simp add: xP_def)
    show "vector r7 ! iS =
          arccos (cos (snd (bounds (?ps ! iS)))
                  + (cos (fst (bounds (?ps ! iS))) - cos (snd (bounds (?ps ! iS)))) * u ! iS)"
      using eS by (simp add: xS_def)
  next
    fix k assume "index ?ps ''XTI__alpha'' = Inr k"
    from eX [OF this] show "vector r7 ! k = truncnorm_ppf E (u ! k) (- 5.0) 5.0 1.0 0.104"
      by (simp add: xX_def)
  next
    fix k assume "index ?ps ''PN__alpha'' = Inr k"
    from eN' [OF this]
    show "case index ?ps ''XTI__alpha'' of
                 Inl e \<Rightarrow> vector r7 ! k = truncnorm_ppf E (u ! k) (- 5.0) 5.0 1.0 0.104
               | Inr kx \<Rightarrow> vector r7 ! k =
                   truncnorm_ppf E (u ! k) (- 5.0) 5.0 (1.0 + 0.916 * (vector r7 ! kx - 1.0))
                     cond_std_alpha" .
  next
    fix j assume "j < length ?ps"
      and "j \<noteq> iD \<and> j \<noteq> iM \<and> j \<noteq> iC \<and> j \<noteq> iP \<and> j \<noteq> iS
            \<and> index ?ps ''XTI__alpha'' \<noteq> Inr j \<and> index ?ps ''PN__alpha'' \<noteq> Inr j"
    then show "vector r7 ! j = fst (bounds (?ps ! j))
                + (snd (bounds (?ps ! j)) - fst (bounds (?ps ! j))) * u ! j"
      by (rule eB)
  qed
qed

lemma getitem_restored:
  assumes "same_frame ps r" and "index ps n = Inr i"
  shows "getitem (restore_cache r cs) n = Inr (vector r ! i)"
proof -
  have "index (restore_cache r cs) n = Inr i"
    using assms by (simp add: index_restore_cache same_frame_index)
  from index_getitem [OF this] show ?thesis by (simp add: vector_restore_cache)
qed


text \<open>
  Claim C6: \<open>inverse_sample\<close> sets each hot-region colatitude to
  \<open>acos (cos b + (cos a - cos b) * u[idx])\<close>, where \<open>(a, b)\<close> are the bounds of that
  colatitude and \<open>idx\<close> is its index in the vector; the primary and the secondary each
  take their own bounds and their own hypercube entry.  The value is the one in the
  returned vector and the one the container holds after the call.  The hypercube is long
  enough, its entries for the two colatitudes are in \<open>[0, 1]\<close>, and the five names looked
  up without a guard are present; under these conditions the call returns.
\<close>

theorem colatitude_inverse_cdf:
  assumes "length (parameters st) \<le> length u"
    and "index (parameters st) ''distance'' = Inr iD"
    and "index (parameters st) ''mass'' = Inr iM"
    and "index (parameters st) ''cos_inclination'' = Inr iC"
    and iP: "index (parameters st) ''p__super_colatitude'' = Inr iP"
    and iS: "index (parameters st) ''s__super_colatitude'' = Inr iS"
    and "0 \<le> u ! iP" "u ! iP \<le> 1"
    and "0 \<le> u ! iS" "u ! iS \<le> 1"
  shows "\<exists>v st'. inverse_sample E rand (Some u) st = Inr (v, st')
     \<and> getitem (parameters st') ''p__super_colatitude'' = Inr (v ! iP)
     \<and> v ! iP =
          arccos (cos (snd (bounds (parameters st ! iP)))
                  + (cos (fst (bounds (parameters st ! iP))) - cos (snd (bounds (parameters st ! iP))))
                    * u ! iP)
     \<and> getitem (parameters st') ''s__super_colatitude'' = Inr (v ! iS)
     \<and> v ! iS =
          arccos (cos (snd (bounds (parameters st ! iS)))
                  + (cos (fst (bounds (parameters st ! iS))) - cos (snd (bounds (parameters st ! iS))))
                    * u ! iS)"
proof -
  from inverse_sample_master [OF assms, of E rand] obtain r where
    ret: "inverse_sample E rand (Some u) st
            = Inr (vector r, st\<lparr>parameters := restore_cache r (vector (parameters st))\<rparr>)"
    and f: "same_frame (parameters st) r"
    and p: "vector r ! iP =
          arccos (cos (snd (bounds (parameters st ! iP)))
                  + (cos (fst (bounds (parameters st ! iP))) - cos (snd (bounds (parameters st ! iP))))
                    * u ! iP)"
    and s: "vector r ! iS =
          arccos (cos (snd (bounds (parameters st ! iS)))
                  + (cos (fst (bounds (parameters st ! iS))) - cos (snd (bounds (parameters st ! iS))))
                    * u ! iS)"
    by blast
  from ret p s getitem_restored [OF f iP] getitem_restored [OF f iS] show ?thesis
    by simp
qed



lemma restore_cache_frame:
  "length (restore_cache r cs) = length r"
  "map bounds (restore_cache r cs) = map bounds r"
  "map strict_bounds (restore_cache r cs) = map strict_bounds r"
  by (induction r cs rule: restore_cache.induct) simp_all

lemma restored_nth:
  assumes f: "same_frame ps r" and j: "j < length ps"
  shows "bounds (restore_cache r cs ! j) = bounds (ps ! j)"
    and "strict_bounds (restore_cache r cs ! j) = strict_bounds (ps ! j)"
proof -
  from same_frame_maps(1) [OF f] j have jr: "j < length r" by simp
  have "map bounds (restore_cache r cs) ! j = map bounds r ! j"
    by (simp add: restore_cache_frame)
  with jr have "bounds (restore_cache r cs ! j) = bounds (r ! j)"
    by (simp add: restore_cache_frame(1))
  with same_frame_nth(1) [OF f j] show "bounds (restore_cache r cs ! j) = bounds (ps ! j)" by simp
  have "map strict_bounds (restore_cache r cs) ! j = map strict_bounds r ! j"
    by (simp add: restore_cache_frame)
  with jr have "strict_bounds (restore_cache r cs ! j) = strict_bounds (r ! j)"
    by (simp add: restore_cache_frame(1))
  with same_frame_nth(2) [OF f j]
  show "strict_bounds (restore_cache r cs ! j) = strict_bounds (ps ! j)" by simp
qed

text \<open>A second call from the state that the first one leaves returns the same vector.\<close>

lemma inverse_sample_again:
  assumes len: "length (parameters st) \<le> length u"
    and iD: "index (parameters st) ''distance'' = Inr iD"
    and iM: "index (parameters st) ''mass'' = Inr iM"
    and iC: "index (parameters st) ''cos_inclination'' = Inr iC"
    and iP: "index (parameters st) ''p__super_colatitude'' = Inr iP"
    and iS: "index (parameters st) ''s__super_colatitude'' = Inr iS"
    and uP: "0 \<le> u ! iP" "u ! iP \<le> 1"
    and uS: "0 \<le> u ! iS" "u ! iS \<le> 1"
  shows "\<exists>v st1 st2. inverse_sample E rand1 (Some u) st = Inr (v, st1)
                   \<and> inverse_sample E rand2 (Some u) st1 = Inr (v, st2)"
proof -
  let ?ps = "parameters st"
  from inverse_sample_master [OF assms, of E rand1] obtain r where
    ret: "inverse_sample E rand1 (Some u) st
            = Inr (vector r, st\<lparr>parameters := restore_cache r (vector ?ps)\<rparr>)"
    and f: "same_frame ?ps r"
    and a: "vector r ! iD = skewnorm_ppf E (u ! iD) 1.7 1.002 0.227"
     "vector r ! iM = truncnorm_ppf E (u ! iM) (- 5.0) 5.0 mu_m std_m"
     "vector r ! iC =
          truncnorm_ppf E (u ! iC)
            (min (- 10.0) ((fst (strict_bounds (?ps ! iC))
                            - (mu_cosi + (std_cosi / std_m) * corr * (vector r ! iM - mu_m))) / cond_std))
            10.0 (mu_cosi + (std_cosi / std_m) * corr * (vector r ! iM - mu_m)) cond_std"
     "vector r ! iP =
          arccos (cos (snd (bounds (?ps ! iP)))
                  + (cos (fst (bounds (?ps ! iP))) - cos (snd (bounds (?ps ! iP)))) * u ! iP)"
     "vector r ! iS =
          arccos (cos (snd (bounds (?ps ! iS)))
                  + (cos (fst (bounds (?ps ! iS))) - cos (snd (bounds (?ps ! iS)))) * u ! iS)"
    and x: "\<forall>k. index ?ps ''XTI__alpha'' = Inr k \<longrightarrow>
              vector r ! k = truncnorm_ppf E (u ! k) (- 5.0) 5.0 1.0 0.104"
    and n: "\<forall>k. index ?ps ''PN__alpha'' = Inr k \<longrightarrow>
              (case index ?ps ''XTI__alpha'' of
                 Inl e \<Rightarrow> vector r ! k = truncnorm_ppf E (u ! k) (- 5.0) 5.0 1.0 0.104
               | Inr kx \<Rightarrow> vector r ! k =
                   truncnorm_ppf E (u ! k) (- 5.0) 5.0 (1.0 + 0.916 * (vector r ! kx - 1.0))
                     cond_std_alpha)"
    and b: "\<forall>j < length ?ps.
            j \<noteq> iD \<and> j \<noteq> iM \<and> j \<noteq> iC \<and> j \<noteq> iP \<and> j \<noteq> iS
            \<and> index ?ps ''XTI__alpha'' \<noteq> Inr j \<and> index ?ps ''PN__alpha'' \<noteq> Inr j \<longrightarrow>
            vector r ! j = fst (bounds (?ps ! j))
                + (snd (bounds (?ps ! j)) - fst (bounds (?ps ! j))) * u ! j"
    by blast
  define st1 where "st1 = st\<lparr>parameters := restore_cache r (vector ?ps)\<rparr>"
  let ?ps1 = "parameters st1"
  have ps1: "?ps1 = restore_cache r (vector ?ps)" by (simp add: st1_def)
  have ix: "index ?ps1 n = index ?ps n" for n
    by (simp add: ps1 index_restore_cache same_frame_index [OF f])
  have l1: "length ?ps1 = length ?ps"
    by (simp add: ps1 restore_cache_frame(1) same_frame_maps(1) [OF f])
  have lt: "i < length ?ps" if "index ?ps n = Inr i" for n i
    using index_props [OF that] by simp
  have bd: "bounds (?ps1 ! j) = bounds (?ps ! j)" "strict_bounds (?ps1 ! j) = strict_bounds (?ps ! j)"
    if "j < length ?ps" for j
    using restored_nth [OF f that] by (simp_all add: ps1)
  from len l1 have len1: "length ?ps1 \<le> length u" by simp
  from inverse_sample_master [OF len1 iD [folded ix] iM [folded ix] iC [folded ix]
      iP [folded ix] iS [folded ix] uP uS, of E rand2]
  obtain r' where
    ret': "inverse_sample E rand2 (Some u) st1
            = Inr (vector r', st1\<lparr>parameters := restore_cache r' (vector ?ps1)\<rparr>)"
    and f': "same_frame ?ps1 r'"
    and a': "vector r' ! iD = skewnorm_ppf E (u ! iD) 1.7 1.002 0.227"
     "vector r' ! iM = truncnorm_ppf E (u ! iM) (- 5.0) 5.0 mu_m std_m"
     "vector r' ! iC =
          truncnorm_ppf E (u ! iC)
            (min (- 10.0) ((fst (strict_bounds (?ps1 ! iC))
                            - (mu_cosi + (std_cosi / std_m) * corr * (vector r' ! iM - mu_m))) / cond_std))
            10.0 (mu_cosi + (std_cosi / std_m) * corr * (vector r' ! iM - mu_m)) cond_std"
     "vector r' ! iP =
          arccos (cos (snd (bounds (?ps1 ! iP)))
                  + (cos (fst (bounds (?ps1 ! iP))) - cos (snd (bounds (?ps1 ! iP)))) * u ! iP)"
     "vector r' ! iS =
          arccos (cos (snd (bounds (?ps1 ! iS)))
                  + (cos (fst (bounds (?ps1 ! iS))) - cos (snd (bounds (?ps1 ! iS)))) * u ! iS)"
    and x': "\<forall>k. index ?ps1 ''XTI__alpha'' = Inr k \<longrightarrow>
              vector r' ! k = truncnorm_ppf E (u ! k) (- 5.0) 5.0 1.0 0.104"
    and n': "\<forall>k. index ?ps1 ''PN__alpha'' = Inr k \<longrightarrow>
              (case index ?ps1 ''XTI__alpha'' of
                 Inl e \<Rightarrow> vector r' ! k = truncnorm_ppf E (u ! k) (- 5.0) 5.0 1.0 0.104
               | Inr kx \<Rightarrow> vector r' ! k =
                   truncnorm_ppf E (u ! k) (- 5.0) 5.0 (1.0 + 0.916 * (vector r' ! kx - 1.0))
                     cond_std_alpha)"
    and b': "\<forall>j < length ?ps1.
            j \<noteq> iD \<and> j \<noteq> iM \<and> j \<noteq> iC \<and> j \<noteq> iP \<and> j \<noteq> iS
            \<and> index ?ps1 ''XTI__alpha'' \<noteq> Inr j \<and> index ?ps1 ''PN__alpha'' \<noteq> Inr j \<longrightarrow>
            vector r' ! j = fst (bounds (?ps1 ! j))
                + (snd (bounds (?ps1 ! j)) - fst (bounds (?ps1 ! j))) * u ! j"
    by blast
  have lr: "length (vector r) = length ?ps" "length (vector r') = length ?ps"
    using same_frame_maps(1) [OF f] same_frame_maps(1) [OF f'] l1 by (simp_all add: length_vector)
  have eD: "vector r' ! iD = vector r ! iD" using a(1) a'(1) by simp
  have eM: "vector r' ! iM = vector r ! iM" using a(2) a'(2) by simp
  have eC: "vector r' ! iC = vector r ! iC"
    using a(3) a'(3) eM bd(2) [OF lt [OF iC]] by simp
  have eP: "vector r' ! iP = vector r ! iP" using a(4) a'(4) bd(1) [OF lt [OF iP]] by simp
  have eS: "vector r' ! iS = vector r ! iS" using a(5) a'(5) bd(1) [OF lt [OF iS]] by simp
  have eX: "vector r' ! k = vector r ! k" if "index ?ps ''XTI__alpha'' = Inr k" for k
    using x [rule_format, OF that] x' [rule_format, of k] that by (simp add: ix)
  have eN: "vector r' ! k = vector r ! k" if k: "index ?ps ''PN__alpha'' = Inr k" for k
  proof (cases "index ?ps ''XTI__alpha''")
    case (Inl e)
    with n [rule_format, OF k] n' [rule_format, of k] k show ?thesis by (simp add: ix)
  next
    case (Inr kx)
    with n [rule_format, OF k] n' [rule_format, of k] k eX [OF Inr] show ?thesis by (simp add: ix)
  qed
  have "vector r' = vector r"
  proof (rule nth_equalityI)
    show "length (vector r') = length (vector r)" by (simp add: lr)
  next
    fix j assume "j < length (vector r')"
    then have j: "j < length ?ps" by (simp add: lr)
    show "vector r' ! j = vector r ! j"
    proof (cases "j = iD \<or> j = iM \<or> j = iC \<or> j = iP \<or> j = iS
          \<or> index ?ps ''XTI__alpha'' = Inr j \<or> index ?ps ''PN__alpha'' = Inr j")
      case True
      with eD eM eC eP eS eX eN show ?thesis by blast
    next
      case False
      with b [rule_format, OF j] b' [rule_format, of j] j l1 bd(1) [OF j] show ?thesis
        by (simp add: ix)
    qed
  qed
  with ret ret' show ?thesis by (auto simp: st1_def)
qed

text \<open>
  Claim C5: for a hypercube \<open>u\<close> that is supplied, calling \<open>inverse_sample\<close> twice from
  the same parameter state gives the same output: the result does not depend on the
  random source.  The second part says more: when the call returns (the hypercube is long
  enough, the five names looked up without a guard are present, the hypercube entries of
  the colatitudes are in \<open>[0, 1]\<close>), a second call from the state that the first one
  leaves returns the same vector again, whatever the random source.
\<close>

theorem inverse_sample_deterministic:
  "inverse_sample E rand1 (Some u) st = inverse_sample E rand2 (Some u) st
   \<and> (\<forall>iD iM iC iP iS.
        length (parameters st) \<le> length u
        \<and> index (parameters st) ''distance'' = Inr iD
        \<and> index (parameters st) ''mass'' = Inr iM
        \<and> index (parameters st) ''cos_inclination'' = Inr iC
        \<and> index (parameters st) ''p__super_colatitude'' = Inr iP
        \<and> index (parameters st) ''s__super_colatitude'' = Inr iS
        \<and> 0 \<le> u ! iP \<and> u ! iP \<le> 1 \<and> 0 \<le> u ! iS \<and> u ! iS \<le> 1
        \<longrightarrow> (\<exists>v st1 st2. inverse_sample E rand1 (Some u) st = Inr (v, st1)
                         \<and> inverse_sample E rand2 (Some u) st1 = Inr (v, st2)))"
proof (intro conjI allI impI)
  show "inverse_sample E rand1 (Some u) st = inverse_sample E rand2 (Some u) st"
    by (simp add: inverse_sample_def)
next
  fix iD iM iC iP iS
  assume "length (parameters st) \<le> length u
        \<and> index (parameters st) ''distance'' = Inr iD
        \<and> index (parameters st) ''mass'' = Inr iM
        \<and> index (parameters st) ''cos_inclination'' = Inr iC
        \<and> index (parameters st) ''p__super_colatitude'' = Inr iP
        \<and> index (parameters st) ''s__super_colatitude'' = Inr iS
        \<and> 0 \<le> u ! iP \<and> u ! iP \<le> 1 \<and> 0 \<le> u ! iS \<and> u ! iS \<le> 1"
  then show "\<exists>v st1 st2. inverse_sample E rand1 (Some u) st = Inr (v, st1)
                         \<and> inverse_sample E rand2 (Some u) st1 = Inr (v, st2)"
    using inverse_sample_again [of st u iD iM iC iP iS E rand1 rand2] by blast
qed

text \<open>
  Claim C10: when the container has \<open>PN__alpha\<close> and not \<open>XTI__alpha\<close>, \<open>density\<close> raises
  \<^verbatim>\<open>KeyError\<close> at every vector inside the support (the evaluator returns a finite
  value), and \<open>inverse_sample\<close> returns, with \<open>PN__alpha\<close> sampled at location \<open>1.0\<close> and
  scale \<open>0.104\<close>.
\<close>

theorem density_raises_without_XTI:
  assumes c: "call E st = Inr t" and fin: "isfinite t"
    and len: "length (parameters st) \<le> length u"
    and iD: "index (parameters st) ''distance'' = Inr iD"
    and iM: "index (parameters st) ''mass'' = Inr iM"
    and iC: "index (parameters st) ''cos_inclination'' = Inr iC"
    and iP: "index (parameters st) ''p__super_colatitude'' = Inr iP"
    and iS: "index (parameters st) ''s__super_colatitude'' = Inr iS"
    and uP: "0 \<le> u ! iP" "u ! iP \<le> 1"
    and uS: "0 \<le> u ! iS" "u ! iS \<le> 1"
    and k: "index (parameters st) ''PN__alpha'' = Inr k"
    and x: "getitem (parameters st) ''XTI__alpha'' = Inl KeyError"
  shows "density E st = Inl KeyError
     \<and> (\<exists>v st'. inverse_sample E rand (Some u) st = Inr (v, st')
           \<and> getitem (parameters st') ''PN__alpha'' = Inr (v ! k)
           \<and> v ! k = truncnorm_ppf E (u ! k) (- 5.0) 5.0 1.0 0.104)"
proof -
  from index_props [OF iC] have cp: "get_param (parameters st) ''cos_inclination''
      = Inr (parameters st ! iC)" by blast
  from density_value(3) [OF c fin index_getitem [OF iD] index_getitem [OF iM] cp
      index_getitem [OF k] x]
  have 1: "density E st = Inl KeyError" .
  from inverse_sample_master [OF len iD iM iC iP iS uP uS, of E rand] obtain r where
    ret: "inverse_sample E rand (Some u) st
            = Inr (vector r, st\<lparr>parameters := restore_cache r (vector (parameters st))\<rparr>)"
    and f: "same_frame (parameters st) r"
    and n: "\<forall>k. index (parameters st) ''PN__alpha'' = Inr k \<longrightarrow>
              (case index (parameters st) ''XTI__alpha'' of
                 Inl e \<Rightarrow> vector r ! k = truncnorm_ppf E (u ! k) (- 5.0) 5.0 1.0 0.104
               | Inr kx \<Rightarrow> vector r ! k =
                   truncnorm_ppf E (u ! k) (- 5.0) 5.0 (1.0 + 0.916 * (vector r ! kx - 1.0))
                     cond_std_alpha)"
    by blast
  have 2: "vector r ! k = truncnorm_ppf E (u ! k) (- 5.0) 5.0 1.0 0.104"
  proof (cases "index (parameters st) ''XTI__alpha''")
    case (Inl e)
    with n [rule_format, OF k] show ?thesis by simp
  next
    case (Inr kx)
    from index_getitem [OF this] x show ?thesis by simp
  qed
  from getitem_restored [OF f k] ret 1 2 show ?thesis by simp
qed

text \<open>The positions and the hypercube of the instance.\<close>

lemma u0_facts:
  "length u0 = 15" "0 \<le> u0 ! 5" "u0 ! 5 \<le> 1" "0 \<le> u0 ! 9" "u0 ! 9 \<le> 1"
  by (simp_all add: u0_def)

lemma st0_indices:
  "length (parameters st0) \<le> length u0"
  "index (parameters st0) ''distance'' = Inr 2"
  "index (parameters st0) ''mass'' = Inr 0"
  "index (parameters st0) ''cos_inclination'' = Inr 3"
  "index (parameters st0) ''p__super_colatitude'' = Inr 5"
  "index (parameters st0) ''s__super_colatitude'' = Inr 9"
  "index (parameters st0) ''XTI__alpha'' = Inr 12"
  "index (parameters st0) ''PN__alpha'' = Inr 14"
  by (simp_all add: st0_def instance_defs u0_def)

lemma st_PN_only_indices:
  "length (parameters st_PN_only) \<le> length u0"
  "index (parameters st_PN_only) ''distance'' = Inr 2"
  "index (parameters st_PN_only) ''mass'' = Inr 0"
  "index (parameters st_PN_only) ''cos_inclination'' = Inr 3"
  "index (parameters st_PN_only) ''p__super_colatitude'' = Inr 5"
  "index (parameters st_PN_only) ''s__super_colatitude'' = Inr 9"
  "index (parameters st_PN_only) ''PN__alpha'' = Inr 13"
  by (simp_all add: st_PN_only_def params_PN_only_def instance_defs u0_def)

lemma st0_bounds:
  "bounds (parameters st0 ! 5) = (0, pi)" "bounds (parameters st0 ! 9) = (0, pi)"
  "vector (parameters st0) ! 2 = 1.0"
  by (simp_all add: st0_def instance_defs vector_def)

text \<open>The second part of the theorem at the instance.\<close>

theorem inverse_sample_deterministic_witness:
  "\<exists>v st1 st2. inverse_sample env0 rand0 (Some u0) st0 = Inr (v, st1)
               \<and> inverse_sample env0 (\<lambda>n. replicate n 0) (Some u0) st1 = Inr (v, st2)"
  using inverse_sample_deterministic [of env0 rand0 u0 st0 "\<lambda>n. replicate n 0"]
    st0_indices(1-6) u0_facts(2-5)
  by blast

text \<open>The theorem at the instance: bounds \<open>(0, pi)\<close> and hypercube entries \<open>0.5\<close> and
  \<open>0.75\<close>.\<close>

theorem colatitude_inverse_cdf_witness:
  "\<exists>v st'. inverse_sample env0 rand0 (Some u0) st0 = Inr (v, st')
     \<and> getitem (parameters st') ''p__super_colatitude'' = Inr (v ! 5)
     \<and> v ! 5 = arccos (cos pi + (cos 0 - cos pi) * 0.5)
     \<and> getitem (parameters st') ''s__super_colatitude'' = Inr (v ! 9)
     \<and> v ! 9 = arccos (cos pi + (cos 0 - cos pi) * 0.75)"
  using colatitude_inverse_cdf [OF st0_indices(1-6) u0_facts(2-5), of env0 rand0]
  by (simp add: st0_bounds u0_def)



text \<open>The theorem at the variant of the instance without \<open>XTI__alpha\<close>.\<close>

theorem density_raises_without_XTI_witness:
  "density env0 st_PN_only = Inl KeyError
   \<and> (\<exists>v st'. inverse_sample env0 rand0 (Some u0) st_PN_only = Inr (v, st')
         \<and> getitem (parameters st') ''PN__alpha'' = Inr (v ! 13)
         \<and> v ! 13 = truncnorm_ppf env0 (u0 ! 13) (- 5.0) 5.0 1.0 0.104)"
proof -
  have fin: "isfinite (Fin 0)" by simp
  from density_raises_without_XTI [OF st_PN_only_call fin st_PN_only_indices(1-6) u0_facts(2-5)
      st_PN_only_indices(7) alpha_items(5), of rand0]
  show ?thesis .
qed

end
